theory Spec2Isabelle
  imports Complex_Main
begin

section \<open>Data model of the collision subsystem (src/game.js)\<close>

text \<open>
  JavaScript numbers that the map loader and the player hold are finite; they are modelled
  as exact reals (rounding, overflow and underflow are not modelled, and a negative zero
  among these inputs is not told from zero). Where the source divides by a value that may
  be zero, the special values of IEEE arithmetic, and the sign of a zero that the
  arithmetic produces, are modelled explicitly further below.
\<close>

datatype point = Point (px: real) (py: real)

datatype shape = Circle | Triangle | Polygon | Rectangle

text \<open>An object of the \<open>walls\<close> layer as the map description delivers it.\<close>

record raw_object =
  obj_x :: real
  obj_y :: real
  obj_width :: real
  obj_height :: real
  obj_rotation :: "real option"
  obj_polygon :: "point list option"
  obj_radius :: "real option"
  obj_points :: "point list option"

text \<open>
  An entry of \<open>collisionLayer\<close>, as \<open>loadCollisionData\<close> builds it (without its \<open>type\<close>,
  which the collision code never reads).
\<close>

record wall =
  wall_x :: real
  wall_y :: real
  wall_width :: real
  wall_height :: real
  wall_rotation :: real
  wall_shape :: shape
  wall_polygon :: "point list option"
  wall_radius :: "real option"
  wall_points :: "point list option"

text \<open>Truthiness of an optional number: \<open>undefined\<close>, \<open>null\<close> and \<open>0\<close> are falsy.\<close>

fun truthy :: "real option \<Rightarrow> bool" where
  "truthy None = False"
| "truthy (Some r) = (r \<noteq> 0)"

text \<open>\<open>a || b\<close> on an optional number with a numeric default.\<close>

fun orElse :: "real option \<Rightarrow> real \<Rightarrow> real" where
  "orElse None d = d"
| "orElse (Some r) d = (if r \<noteq> 0 then r else d)"

subsection \<open>Shape classification: \<open>MapManager.detectShapeType\<close>\<close>

definition hasPolygon :: "raw_object \<Rightarrow> bool" where
  "hasPolygon obj = (case obj_polygon obj of None \<Rightarrow> False | Some ps \<Rightarrow> length ps \<ge> 3)"

definition detectShapeType :: "raw_object \<Rightarrow> shape" where
  "detectShapeType obj =
     (if hasPolygon obj
      then (if length (the (obj_polygon obj)) = 3 then Triangle else Polygon)
      else if truthy (obj_radius obj) \<or> (obj_width obj = obj_height obj \<and> obj_width obj > 0)
      then Circle
      else if truthy (obj_rotation obj) \<and> the (obj_rotation obj) \<noteq> 0
      then Rectangle
      else Rectangle)"

text \<open>The object literal that \<open>loadCollisionData\<close> maps every raw object to.\<close>

definition toWall :: "raw_object \<Rightarrow> wall" where
  "toWall obj =
     \<lparr> wall_x = obj_x obj, wall_y = obj_y obj,
       wall_width = obj_width obj, wall_height = obj_height obj,
       wall_rotation = orElse (obj_rotation obj) 0,
       wall_shape = detectShapeType obj,
       wall_polygon = obj_polygon obj,
       wall_radius =
         (if truthy (obj_radius obj) then obj_radius obj
          else if detectShapeType obj = Circle
               then Some (min (obj_width obj) (obj_height obj) / 2) else None),
       wall_points = obj_points obj \<rparr>"

subsection \<open>The spatial grid: \<open>MapManager.updateSpatialGrid\<close>\<close>

text \<open>
  The grid is a JavaScript \<open>Map\<close> from the string \<open>"gridX,gridY"\<close> to an array of
  obstacle indices. The key string determines the pair of integers and conversely, so the
  key is modelled as the pair.
\<close>

type_synonym grid = "int \<times> int \<rightharpoonup> nat list"

record map_manager =
  collisionLayer :: "wall list"
  spatialGrid :: grid
  mm_width :: real
  mm_height :: real
  tileWidth :: real
  tileHeight :: real

text \<open>\<open>this.gridSize = 100\<close>, set by the constructor and never changed.\<close>

definition gridSize :: real where
  "gridSize = 100"

text \<open>
  The two nested \<open>for\<close> loops over \<open>gridX\<close> (outer) and \<open>gridY\<close> (inner), both with
  inclusive bounds obtained by \<open>Math.floor(v / gridSize)\<close>: the keys in visiting order.
\<close>

definition cellRange :: "real \<Rightarrow> real \<Rightarrow> real \<Rightarrow> real \<Rightarrow> (int \<times> int) list" where
  "cellRange minX minY maxX maxY =
     List.product [\<lfloor>minX / gridSize\<rfloor> .. \<lfloor>maxX / gridSize\<rfloor>]
                  [\<lfloor>minY / gridSize\<rfloor> .. \<lfloor>maxY / gridSize\<rfloor>]"

text \<open>World coordinates of a polygon: \<open>polygon.map(p => ({x: wall.x + p.x, y: wall.y + p.y}))\<close>.\<close>

definition worldPoints :: "real \<Rightarrow> real \<Rightarrow> point list \<Rightarrow> point list" where
  "worldPoints x y ps = map (\<lambda>p. Point (x + px p) (y + py p)) ps"

text \<open>The bounding box \<open>(minX, minY, maxX, maxY)\<close> that \<open>updateSpatialGrid\<close> computes.\<close>

definition wallBounds :: "wall \<Rightarrow> real \<times> real \<times> real \<times> real" where
  "wallBounds w =
     (case wall_polygon w of
        Some ps \<Rightarrow>
          if wall_shape w = Polygon \<and> length ps > 0
          then (let wp = worldPoints (wall_x w) (wall_y w) ps
                in (Min (set (map px wp)), Min (set (map py wp)),
                    Max (set (map px wp)), Max (set (map py wp))))
          else (wall_x w, wall_y w, wall_x w + wall_width w, wall_y w + wall_height w)
      | None \<Rightarrow> (wall_x w, wall_y w, wall_x w + wall_width w, wall_y w + wall_height w))"

definition wallCells :: "wall \<Rightarrow> (int \<times> int) list" where
  "wallCells w = (case wallBounds w of (minX, minY, maxX, maxY) \<Rightarrow> cellRange minX minY maxX maxY)"

text \<open>\<open>this.spatialGrid.get(key) || []\<close>.\<close>

definition cellObjects :: "grid \<Rightarrow> int \<times> int \<Rightarrow> nat list" where
  "cellObjects g key = (case g key of None \<Rightarrow> [] | Some l \<Rightarrow> l)"

text \<open>The body of the innermost loop: create the cell's array if absent, then push \<open>i\<close>.\<close>

definition pushIndex :: "nat \<Rightarrow> int \<times> int \<Rightarrow> grid \<Rightarrow> grid" where
  "pushIndex i key g = g(key \<mapsto> cellObjects g key @ [i])"

definition addWall :: "wall list \<Rightarrow> nat \<Rightarrow> grid \<Rightarrow> grid" where
  "addWall layer i g = fold (pushIndex i) (wallCells (layer ! i)) g"

text \<open>
  \<open>updateSpatialGrid\<close>: clear the grid, then for \<open>i = 0 .. length - 1\<close> register obstacle
  \<open>i\<close> in every cell of its bounding box. The index read \<open>layer ! i\<close> is always in range.
\<close>

definition buildGrid :: "wall list \<Rightarrow> grid" where
  "buildGrid layer = fold (addWall layer) [0 ..< length layer] Map.empty"

definition updateSpatialGrid :: "map_manager \<Rightarrow> map_manager" where
  "updateSpatialGrid mm = mm\<lparr>spatialGrid := buildGrid (collisionLayer mm)\<rparr>"


section \<open>JavaScript numbers with their special values\<close>

text \<open>
  Division never raises in JavaScript: it yields \<open>Infinity\<close>, \<open>-Infinity\<close> or \<open>NaN\<close>, and
  every comparison with \<open>NaN\<close> is false. The functions that divide by a possibly zero value
  are modelled over this type. \<open>Fin r\<close> is the finite number \<open>r\<close> (with \<open>Fin 0\<close> the
  positive zero), \<open>NegZero\<close> is \<open>-0\<close>. Finite results are exact.
\<close>

datatype jsnum = Fin real | NegZero | PosInf | NegInf | NaN

fun val :: "jsnum \<Rightarrow> real" where
  "val (Fin r) = r"
| "val NegZero = 0"
| "val PosInf = 0"
| "val NegInf = 0"
| "val NaN = 0"

fun isFinite :: "jsnum \<Rightarrow> bool" where
  "isFinite (Fin r) = True"
| "isFinite NegZero = True"
| "isFinite PosInf = False"
| "isFinite NegInf = False"
| "isFinite NaN = False"

fun isInf :: "jsnum \<Rightarrow> bool" where
  "isInf PosInf = True"
| "isInf NegInf = True"
| "isInf (Fin r) = False"
| "isInf NegZero = False"
| "isInf NaN = False"

fun isZero :: "jsnum \<Rightarrow> bool" where
  "isZero (Fin r) = (r = 0)"
| "isZero NegZero = True"
| "isZero PosInf = False"
| "isZero NegInf = False"
| "isZero NaN = False"

text \<open>The sign bit (of no use on \<open>NaN\<close>).\<close>

fun signBit :: "jsnum \<Rightarrow> bool" where
  "signBit (Fin r) = (r < 0)"
| "signBit NegZero = True"
| "signBit PosInf = False"
| "signBit NegInf = True"
| "signBit NaN = False"

definition zeroOf :: "bool \<Rightarrow> jsnum" where
  "zeroOf s = (if s then NegZero else Fin 0)"

definition infOf :: "bool \<Rightarrow> jsnum" where
  "infOf s = (if s then NegInf else PosInf)"

fun jneg :: "jsnum \<Rightarrow> jsnum" where
  "jneg (Fin r) = (if r = 0 then NegZero else Fin (- r))"
| "jneg NegZero = Fin 0"
| "jneg PosInf = NegInf"
| "jneg NegInf = PosInf"
| "jneg NaN = NaN"

definition jadd :: "jsnum \<Rightarrow> jsnum \<Rightarrow> jsnum" where
  "jadd a b =
     (if a = NaN \<or> b = NaN then NaN
      else if isInf a then (if isInf b \<and> a \<noteq> b then NaN else a)
      else if isInf b then b
      else if val a + val b \<noteq> 0 then Fin (val a + val b)
      else if a = NegZero \<and> b = NegZero then NegZero
      else Fin 0)"

definition jsub :: "jsnum \<Rightarrow> jsnum \<Rightarrow> jsnum" where
  "jsub a b = jadd a (jneg b)"

definition jmul :: "jsnum \<Rightarrow> jsnum \<Rightarrow> jsnum" where
  "jmul a b =
     (if a = NaN \<or> b = NaN then NaN
      else if isInf a \<or> isInf b
      then (if isZero a \<or> isZero b then NaN else infOf (signBit a \<noteq> signBit b))
      else if val a * val b \<noteq> 0 then Fin (val a * val b)
      else zeroOf (signBit a \<noteq> signBit b))"

definition jdiv :: "jsnum \<Rightarrow> jsnum \<Rightarrow> jsnum" where
  "jdiv a b =
     (if a = NaN \<or> b = NaN then NaN
      else if isInf a then (if isInf b then NaN else infOf (signBit a \<noteq> signBit b))
      else if isInf b then zeroOf (signBit a \<noteq> signBit b)
      else if isZero b then (if isZero a then NaN else infOf (signBit a \<noteq> signBit b))
      else if val a / val b \<noteq> 0 then Fin (val a / val b)
      else zeroOf (signBit a \<noteq> signBit b))"

text \<open>\<open>Math.sqrt\<close>.\<close>

fun jsqrt :: "jsnum \<Rightarrow> jsnum" where
  "jsqrt (Fin r) = (if r < 0 then NaN else Fin (sqrt r))"
| "jsqrt NegZero = NegZero"
| "jsqrt PosInf = PosInf"
| "jsqrt NegInf = NaN"
| "jsqrt NaN = NaN"

text \<open>\<open>a < b\<close>: false when either side is \<open>NaN\<close>; the two zeros are equal.\<close>

fun jlt :: "jsnum \<Rightarrow> jsnum \<Rightarrow> bool" where
  "jlt NaN b = False"
| "jlt a NaN = False"
| "jlt PosInf b = False"
| "jlt a PosInf = True"
| "jlt a NegInf = False"
| "jlt NegInf b = True"
| "jlt a b = (val a < val b)"

text \<open>\<open>a >= b\<close> and \<open>a <= b\<close>: false when either side is \<open>NaN\<close>.\<close>

definition jge :: "jsnum \<Rightarrow> jsnum \<Rightarrow> bool" where
  "jge a b = (a \<noteq> NaN \<and> b \<noteq> NaN \<and> \<not> jlt a b)"

definition jle :: "jsnum \<Rightarrow> jsnum \<Rightarrow> bool" where
  "jle a b = jge b a"

text \<open>\<open>Math.min\<close> and \<open>Math.max\<close> of two numbers: \<open>NaN\<close> is contagious, \<open>-0\<close> is below \<open>+0\<close>.\<close>

definition jmin :: "jsnum \<Rightarrow> jsnum \<Rightarrow> jsnum" where
  "jmin a b =
     (if a = NaN \<or> b = NaN then NaN
      else if jlt a b then a
      else if jlt b a then b
      else if a = NegZero then a else b)"

definition jmax :: "jsnum \<Rightarrow> jsnum \<Rightarrow> jsnum" where
  "jmax a b =
     (if a = NaN \<or> b = NaN then NaN
      else if jlt a b then b
      else if jlt b a then a
      else if a = NegZero then b else a)"


section \<open>Narrow phase: the per-shape predicates of \<open>MapManager\<close>\<close>

text \<open>
  Reading a property of \<open>undefined\<close> raises a \<open>TypeError\<close>; it is the only exception the
  collision code can raise.
\<close>

datatype js_error = TypeError

definition rectCollision ::
  "real \<Rightarrow> real \<Rightarrow> real \<Rightarrow> real \<Rightarrow> real \<Rightarrow> real \<Rightarrow> real \<Rightarrow> real \<Rightarrow> bool" where
  "rectCollision x1 y1 w1 h1 x2 y2 w2 h2 =
     (x1 < x2 + w2 \<and> x1 + w1 > x2 \<and> y1 < y2 + h2 \<and> y1 + h1 > y2)"

text \<open>The four corners of the player rectangle, in the order the source lists them.\<close>

definition playerCorners :: "real \<Rightarrow> real \<Rightarrow> real \<Rightarrow> real \<Rightarrow> point list" where
  "playerCorners playerX playerY playerWidth playerHeight =
     [Point playerX playerY, Point (playerX + playerWidth) playerY,
      Point playerX (playerY + playerHeight),
      Point (playerX + playerWidth) (playerY + playerHeight)]"

text \<open>The inclusive test \<open>point.x >= playerX && point.x <= playerX + playerWidth && ...\<close>.\<close>

definition pointInRect :: "real \<Rightarrow> real \<Rightarrow> real \<Rightarrow> real \<Rightarrow> point \<Rightarrow> bool" where
  "pointInRect playerX playerY playerWidth playerHeight p =
     (px p \<ge> playerX \<and> px p \<le> playerX + playerWidth \<and>
      py p \<ge> playerY \<and> py p \<le> playerY + playerHeight)"

subsection \<open>Circle\<close>

definition checkCircleCollision :: "real \<Rightarrow> real \<Rightarrow> real \<Rightarrow> real \<Rightarrow> wall \<Rightarrow> bool" where
  "checkCircleCollision playerX playerY playerWidth playerHeight circle =
     (let circleCenterX = wall_x circle + orElse (wall_radius circle) (wall_width circle / 2);
          circleCenterY = wall_y circle + orElse (wall_radius circle) (wall_height circle / 2);
          radius = orElse (wall_radius circle) (min (wall_width circle) (wall_height circle) / 2);
          playerCenterX = playerX + playerWidth / 2;
          playerCenterY = playerY + playerHeight / 2;
          dx = playerCenterX - circleCenterX;
          dy = playerCenterY - circleCenterY;
          distance = sqrt (dx * dx + dy * dy);
          playerRadius = min playerWidth playerHeight / 2
      in distance < radius + playerRadius)"

subsection \<open>Triangle\<close>

text \<open>
  \<open>pointInTriangle\<close> divides by \<open>denom\<close> without a test; the arithmetic is that of
  JavaScript numbers.
\<close>

definition triDenom :: "point \<Rightarrow> point \<Rightarrow> point \<Rightarrow> jsnum" where
  "triDenom a b c =
     jadd (jmul (jsub (Fin (py b)) (Fin (py c))) (jsub (Fin (px a)) (Fin (px c))))
          (jmul (jsub (Fin (px c)) (Fin (px b))) (jsub (Fin (py a)) (Fin (py c))))"

definition pointInTriangle :: "point \<Rightarrow> point \<Rightarrow> point \<Rightarrow> point \<Rightarrow> bool" where
  "pointInTriangle p a b c =
     (let denom = triDenom a b c;
          alpha = jdiv (jadd (jmul (jsub (Fin (py b)) (Fin (py c))) (jsub (Fin (px p)) (Fin (px c))))
                             (jmul (jsub (Fin (px c)) (Fin (px b))) (jsub (Fin (py p)) (Fin (py c)))))
                       denom;
          beta = jdiv (jadd (jmul (jsub (Fin (py c)) (Fin (py a))) (jsub (Fin (px p)) (Fin (px c))))
                            (jmul (jsub (Fin (px a)) (Fin (px c))) (jsub (Fin (py p)) (Fin (py c)))))
                      denom;
          gamma = jsub (jsub (Fin 1) alpha) beta
      in jge alpha (Fin 0) \<and> jge beta (Fin 0) \<and> jge gamma (Fin 0))"

text \<open>\<open>triangle.points || [top, bottom left, bottom right]\<close>: an array, even empty, is truthy.\<close>

definition trianglePoints :: "wall \<Rightarrow> point list" where
  "trianglePoints triangle =
     (case wall_points triangle of
        Some ps \<Rightarrow> ps
      | None \<Rightarrow>
          [Point (wall_x triangle + wall_width triangle / 2) (wall_y triangle),
           Point (wall_x triangle) (wall_y triangle + wall_height triangle),
           Point (wall_x triangle + wall_width triangle) (wall_y triangle + wall_height triangle)])"

text \<open>
  With fewer than three points, \<open>points[2]\<close> (and perhaps \<open>points[1]\<close>, \<open>points[0]\<close>) is
  \<open>undefined\<close> and the first call of \<open>pointInTriangle\<close> raises when it reads \<open>.y\<close> of it.
\<close>

definition checkTriangleCollision ::
  "real \<Rightarrow> real \<Rightarrow> real \<Rightarrow> real \<Rightarrow> wall \<Rightarrow> js_error + bool" where
  "checkTriangleCollision playerX playerY playerWidth playerHeight triangle =
     (let points = trianglePoints triangle
      in if length points < 3 then Inl TypeError
         else Inr (list_ex (\<lambda>corner. pointInTriangle corner (points ! 0) (points ! 1) (points ! 2))
                       (playerCorners playerX playerY playerWidth playerHeight)
                   \<or> list_ex (pointInRect playerX playerY playerWidth playerHeight) points))"

subsection \<open>Rectangle, rotated or not\<close>

datatype jpoint = JPoint (jx: jsnum) (jy: jsnum)

definition getRotatedCorners :: "real \<Rightarrow> real \<Rightarrow> real \<Rightarrow> real \<Rightarrow> real \<Rightarrow> jpoint list" where
  "getRotatedCorners x y width height rotation =
     (let rad = (rotation * pi) / 180;
          c = Fin (cos rad);
          s = Fin (sin rad);
          corners = [(0, 0), (width, 0), (width, height), (0, height)]
      in map (\<lambda>(cx, cy).
                JPoint (jsub (jadd (Fin x) (jmul (Fin cx) c)) (jmul (Fin cy) s))
                       (jadd (jadd (Fin y) (jmul (Fin cx) s)) (jmul (Fin cy) c)))
             corners)"

text \<open>The pairs \<open>(shape[i], shape[(i + 1) % shape.length])\<close> for \<open>i = 0, 1, ...\<close>.\<close>

definition edges :: "'a list \<Rightarrow> ('a \<times> 'a) list" where
  "edges shp = zip shp (rotate1 shp)"

text \<open>The normalised edge normal; a zero length makes both components \<open>NaN\<close>.\<close>

definition satAxis :: "jpoint \<Rightarrow> jpoint \<Rightarrow> jpoint" where
  "satAxis p1 p2 =
     (let ax = jsub (jy p2) (jy p1);
          ay = jsub (jx p1) (jx p2);
          len = jsqrt (jadd (jmul ax ax) (jmul ay ay))
      in JPoint (jdiv ax len) (jdiv ay len))"

definition dot :: "jpoint \<Rightarrow> jpoint \<Rightarrow> jsnum" where
  "dot p axis = jadd (jmul (jx p) (jx axis)) (jmul (jy p) (jy axis))"

text \<open>\<open>projectShape\<close> returns \<open>{min, max}\<close>, here the pair.\<close>

definition projectShape :: "jpoint list \<Rightarrow> jpoint \<Rightarrow> jsnum \<times> jsnum" where
  "projectShape shp axis =
     fold (\<lambda>p (mn, mx). (jmin mn (dot p axis), jmax mx (dot p axis))) shp (PosInf, NegInf)"

definition overlap :: "jsnum \<times> jsnum \<Rightarrow> jsnum \<times> jsnum \<Rightarrow> bool" where
  "overlap proj1 proj2 = (jge (snd proj1) (fst proj2) \<and> jge (snd proj2) (fst proj1))"

text \<open>One pass of the outer loop: every edge normal of \<open>currentShape\<close> must show an overlap.\<close>

definition satPass :: "jpoint list \<Rightarrow> jpoint list \<Rightarrow> bool" where
  "satPass currentShape otherShape =
     list_all (\<lambda>(p1, p2). overlap (projectShape currentShape (satAxis p1 p2))
                                   (projectShape otherShape (satAxis p1 p2)))
              (edges currentShape)"

definition satCollision :: "jpoint list \<Rightarrow> jpoint list \<Rightarrow> bool" where
  "satCollision shape1 shape2 = (satPass shape1 shape2 \<and> satPass shape2 shape1)"

definition checkRotatedRectangleCollision ::
  "real \<Rightarrow> real \<Rightarrow> real \<Rightarrow> real \<Rightarrow> wall \<Rightarrow> bool" where
  "checkRotatedRectangleCollision playerX playerY playerWidth playerHeight w =
     (if wall_rotation w = 0
      then rectCollision playerX playerY playerWidth playerHeight
             (wall_x w) (wall_y w) (wall_width w) (wall_height w)
      else satCollision (getRotatedCorners playerX playerY playerWidth playerHeight 0)
             (getRotatedCorners (wall_x w) (wall_y w) (wall_width w) (wall_height w)
                (wall_rotation w)))"

subsection \<open>Polygon\<close>

text \<open>
  Ray casting. The loop \<open>for (i = 0, j = n - 1; i < n; j = i++)\<close> pairs every vertex with
  its predecessor, the first one with the last. The division is evaluated only when the
  first conjunct holds, and then the two ordinates differ.
\<close>

definition withPrevious :: "'a list \<Rightarrow> ('a \<times> 'a) list" where
  "withPrevious ps = (case ps of [] \<Rightarrow> [] | _ # _ \<Rightarrow> zip ps (last ps # butlast ps))"

definition crosses :: "point \<Rightarrow> point \<Rightarrow> point \<Rightarrow> bool" where
  "crosses p vi vj =
     (if (py vi > py p) \<noteq> (py vj > py p)
      then px p < (px vj - px vi) * (py p - py vi) / (py vj - py vi) + px vi
      else False)"

definition pointInPolygon :: "point \<Rightarrow> point list \<Rightarrow> bool" where
  "pointInPolygon p polygon =
     fold (\<lambda>(vi, vj) inside. if crosses p vi vj then \<not> inside else inside)
          (withPrevious polygon) False"

definition lineIntersection ::
  "real \<Rightarrow> real \<Rightarrow> real \<Rightarrow> real \<Rightarrow> real \<Rightarrow> real \<Rightarrow> real \<Rightarrow> real \<Rightarrow> bool" where
  "lineIntersection x1 y1 x2 y2 x3 y3 x4 y4 =
     (let denom = (x1 - x2) * (y3 - y4) - (y1 - y2) * (x3 - x4)
      in if \<bar>denom\<bar> < 1 / 10 ^ 10 then False
         else (let t = ((x1 - x3) * (y3 - y4) - (y1 - y3) * (x3 - x4)) / denom;
                   u = - ((x1 - x2) * (y1 - y3) - (y1 - y2) * (x1 - x3)) / denom
               in t \<ge> 0 \<and> t \<le> 1 \<and> u \<ge> 0 \<and> u \<le> 1))"

definition rectanglePolygonIntersection ::
  "real \<Rightarrow> real \<Rightarrow> real \<Rightarrow> real \<Rightarrow> point list \<Rightarrow> bool" where
  "rectanglePolygonIntersection rectX rectY rectWidth rectHeight polygonPoints =
     (let rectEdges =
            [(rectX, rectY, rectX + rectWidth, rectY),
             (rectX + rectWidth, rectY, rectX + rectWidth, rectY + rectHeight),
             (rectX, rectY + rectHeight, rectX + rectWidth, rectY + rectHeight),
             (rectX, rectY, rectX, rectY + rectHeight)]
      in list_ex (\<lambda>(p1, p2).
                    list_ex (\<lambda>(x1, y1, x2, y2).
                               lineIntersection x1 y1 x2 y2 (px p1) (py p1) (px p2) (py p2))
                            rectEdges)
                 (edges polygonPoints))"

definition checkPolygonCollision :: "real \<Rightarrow> real \<Rightarrow> real \<Rightarrow> real \<Rightarrow> wall \<Rightarrow> bool" where
  "checkPolygonCollision playerX playerY playerWidth playerHeight polygon =
     (case wall_polygon polygon of
        None \<Rightarrow> False
      | Some ps \<Rightarrow>
          if length ps < 3 then False
          else (let wp = worldPoints (wall_x polygon) (wall_y polygon) ps
                in list_ex (\<lambda>corner. pointInPolygon corner wp)
                     (playerCorners playerX playerY playerWidth playerHeight)
                   \<or> list_ex (pointInRect playerX playerY playerWidth playerHeight) wp
                   \<or> rectanglePolygonIntersection playerX playerY playerWidth playerHeight wp))"

subsection \<open>Dispatch on the shape: \<open>checkShapeCollision\<close>\<close>

definition checkShapeCollision ::
  "real \<Rightarrow> real \<Rightarrow> real \<Rightarrow> real \<Rightarrow> wall \<Rightarrow> js_error + bool" where
  "checkShapeCollision playerX playerY playerWidth playerHeight w =
     (case wall_shape w of
        Circle \<Rightarrow> Inr (checkCircleCollision playerX playerY playerWidth playerHeight w)
      | Triangle \<Rightarrow> checkTriangleCollision playerX playerY playerWidth playerHeight w
      | Polygon \<Rightarrow> Inr (checkPolygonCollision playerX playerY playerWidth playerHeight w)
      | Rectangle \<Rightarrow> Inr (checkRotatedRectangleCollision playerX playerY playerWidth playerHeight w))"


section \<open>Broad phase and movement: \<open>MapManager.checkCollision\<close>, \<open>Player.move\<close>\<close>

text \<open>
  The obstacle indices that the three nested loops of \<open>checkCollision\<close> read, in visiting
  order: for every cell of the query range, the cell's array (or \<open>[]\<close>).
\<close>

definition candidates :: "grid \<Rightarrow> real \<Rightarrow> real \<Rightarrow> real \<Rightarrow> real \<Rightarrow> nat list" where
  "candidates g x y width height =
     concat (map (cellObjects g) (cellRange x y (x + width) (y + height)))"

text \<open>
  The innermost loop body over these indices: \<open>collisionLayer[objIndex]\<close> is \<open>undefined\<close>
  for an index out of range, and reading \<open>wall.shape\<close> then raises; the first collision
  returns \<open>true\<close> at once.
\<close>

fun testCandidates ::
  "wall list \<Rightarrow> real \<Rightarrow> real \<Rightarrow> real \<Rightarrow> real \<Rightarrow> nat list \<Rightarrow> js_error + bool" where
  "testCandidates layer x y width height [] = Inr False"
| "testCandidates layer x y width height (objIndex # rest) =
     (if objIndex < length layer
      then (case checkShapeCollision x y width height (layer ! objIndex) of
              Inl e \<Rightarrow> Inl e
            | Inr hit \<Rightarrow> if hit then Inr True else testCandidates layer x y width height rest)
      else Inl TypeError)"

definition outOfBounds :: "map_manager \<Rightarrow> real \<Rightarrow> real \<Rightarrow> real \<Rightarrow> real \<Rightarrow> bool" where
  "outOfBounds mm x y width height =
     (let mapWidth = mm_width mm * tileWidth mm;
          mapHeight = mm_height mm * tileHeight mm
      in x < 0 \<or> y < 0 \<or> x + width > mapWidth \<or> y + height > mapHeight)"

definition checkCollision ::
  "map_manager \<Rightarrow> real \<Rightarrow> real \<Rightarrow> real \<Rightarrow> real \<Rightarrow> js_error + bool" where
  "checkCollision mm x y width height =
     (if outOfBounds mm x y width height then Inr True
      else testCandidates (collisionLayer mm) x y width height
             (candidates (spatialGrid mm) x y width height))"

record player =
  player_x :: real
  player_y :: real
  player_width :: real
  player_height :: real

text \<open>
  \<open>Player.move\<close> mutates \<open>this.x\<close> and \<open>this.y\<close>. The model returns the player as the call
  leaves it, and the exception if one propagated out of it.
\<close>

definition moveX :: "map_manager \<Rightarrow> player \<Rightarrow> real \<Rightarrow> player \<times> js_error option" where
  "moveX mm p deltaX =
     (if deltaX \<noteq> 0
      then (let newX = player_x p + deltaX
            in case checkCollision mm newX (player_y p) (player_width p) (player_height p) of
                 Inl e \<Rightarrow> (p, Some e)
               | Inr hit \<Rightarrow> (if \<not> hit then p\<lparr>player_x := newX\<rparr> else p, None))
      else (p, None))"

definition moveY :: "map_manager \<Rightarrow> player \<Rightarrow> real \<Rightarrow> player \<times> js_error option" where
  "moveY mm p deltaY =
     (if deltaY \<noteq> 0
      then (let newY = player_y p + deltaY
            in case checkCollision mm (player_x p) newY (player_width p) (player_height p) of
                 Inl e \<Rightarrow> (p, Some e)
               | Inr hit \<Rightarrow> (if \<not> hit then p\<lparr>player_y := newY\<rparr> else p, None))
      else (p, None))"

definition move :: "map_manager \<Rightarrow> player \<Rightarrow> real \<Rightarrow> real \<Rightarrow> player \<times> js_error option" where
  "move mm p deltaX deltaY =
     (case moveX mm p deltaX of
        (p1, Some e) \<Rightarrow> (p1, Some e)
      | (p1, None) \<Rightarrow> moveY mm p1 deltaY)"

section \<open>Zone membership: \<open>HouseInteractionManager\<close>\<close>

text \<open>
  \<open>house.shape\<close> is a string; \<open>loadHouseAreas\<close> assigns \<open>polygon\<close>, \<open>ellipse\<close> or
  \<open>rectangle\<close>, and the \<open>switch\<close> has a default branch for anything else.
\<close>

datatype house_shape = HousePolygon | HouseEllipse | HouseRectangle | HouseOther

record house =
  house_x :: real
  house_y :: real
  house_width :: real
  house_height :: real
  house_centerX :: real
  house_centerY :: real
  house_radius :: real
  house_shape :: house_shape
  house_polygon :: "point list option"

text \<open>
  An object of a layer of the zone map, and the \<open>houseData\<close> object that \<open>loadHouseAreas\<close>
  builds from it (the fields the membership test reads). The \<open>polygon\<close> field is set only
  together with the shape \<open>polygon\<close>.
\<close>

record raw_zone =
  zone_x :: real
  zone_y :: real
  zone_width :: real
  zone_height :: real
  zone_polygon :: "point list option"
  zone_ellipse :: bool

definition houseData :: "raw_zone \<Rightarrow> house" where
  "houseData obj =
     (let isPolygon = (case zone_polygon obj of None \<Rightarrow> False | Some ps \<Rightarrow> length ps \<ge> 3)
      in \<lparr> house_x = zone_x obj, house_y = zone_y obj,
           house_width = zone_width obj, house_height = zone_height obj,
           house_centerX = zone_x obj + zone_width obj / 2,
           house_centerY = zone_y obj + zone_height obj / 2,
           house_radius = max (zone_width obj) (zone_height obj) / 2,
           house_shape = (if isPolygon then HousePolygon
                          else if zone_ellipse obj then HouseEllipse else HouseRectangle),
           house_polygon = (if isPolygon then zone_polygon obj else None) \<rparr>)"

definition checkHousePolygonCollision :: "real \<Rightarrow> real \<Rightarrow> real \<Rightarrow> real \<Rightarrow> house \<Rightarrow> bool" where
  "checkHousePolygonCollision playerX playerY playerWidth playerHeight hs =
     (case house_polygon hs of
        None \<Rightarrow> False
      | Some ps \<Rightarrow>
          if length ps < 3 then False
          else (let wp = worldPoints (house_x hs) (house_y hs) ps
                in list_ex (\<lambda>corner. pointInPolygon corner wp)
                     (playerCorners playerX playerY playerWidth playerHeight)
                   \<or> list_ex (pointInRect playerX playerY playerWidth playerHeight) wp))"

definition checkHouseEllipseCollision :: "real \<Rightarrow> real \<Rightarrow> real \<Rightarrow> real \<Rightarrow> house \<Rightarrow> bool" where
  "checkHouseEllipseCollision playerX playerY playerWidth playerHeight hs =
     (let centerX = house_x hs + house_width hs / 2;
          centerY = house_y hs + house_height hs / 2;
          radiusX = Fin (house_width hs / 2);
          radiusY = Fin (house_height hs / 2)
      in list_ex (\<lambda>corner.
                    let dx = jsub (Fin (px corner)) (Fin centerX);
                        dy = jsub (Fin (py corner)) (Fin centerY);
                        normalizedX = jdiv (jmul dx dx) (jmul radiusX radiusX);
                        normalizedY = jdiv (jmul dy dy) (jmul radiusY radiusY)
                    in jle (jadd normalizedX normalizedY) (Fin 1))
                 (playerCorners playerX playerY playerWidth playerHeight))"

definition checkHouseRectangleCollision :: "real \<Rightarrow> real \<Rightarrow> real \<Rightarrow> real \<Rightarrow> house \<Rightarrow> bool" where
  "checkHouseRectangleCollision playerX playerY playerWidth playerHeight hs =
     (\<not> (playerX + playerWidth < house_x hs \<or>
         playerX > house_x hs + house_width hs \<or>
         playerY + playerHeight < house_y hs \<or>
         playerY > house_y hs + house_height hs))"

text \<open>The \<open>switch (house.shape)\<close> of the loop body, giving \<open>isInside\<close>.\<close>

definition isInside :: "real \<Rightarrow> real \<Rightarrow> real \<Rightarrow> real \<Rightarrow> house \<Rightarrow> bool" where
  "isInside playerX playerY playerWidth playerHeight hs =
     (case house_shape hs of
        HousePolygon \<Rightarrow> checkHousePolygonCollision playerX playerY playerWidth playerHeight hs
      | HouseEllipse \<Rightarrow> checkHouseEllipseCollision playerX playerY playerWidth playerHeight hs
      | HouseRectangle \<Rightarrow> checkHouseRectangleCollision playerX playerY playerWidth playerHeight hs
      | HouseOther \<Rightarrow>
          sqrt ((playerX - house_centerX hs) ^ 2 + (playerY - house_centerY hs) ^ 2)
            \<le> house_radius hs)"

text \<open>
  The \<open>for (const house of this.houseAreas)\<close> loop with its \<open>break\<close>. Houses are objects
  compared by reference; a house is identified by its position in \<open>houseAreas\<close>, and the
  loop is given the position of the first house still to visit.
\<close>

fun scanHouses :: "real \<Rightarrow> real \<Rightarrow> real \<Rightarrow> real \<Rightarrow> house list \<Rightarrow> nat \<Rightarrow> nat option" where
  "scanHouses playerX playerY playerWidth playerHeight [] i = None"
| "scanHouses playerX playerY playerWidth playerHeight (hs # rest) i =
     (if isInside playerX playerY playerWidth playerHeight hs then Some i
      else scanHouses playerX playerY playerWidth playerHeight rest (Suc i))"

definition nearestHouse :: "player \<Rightarrow> house list \<Rightarrow> nat option" where
  "nearestHouse p areas =
     scanHouses (player_x p) (player_y p) (player_width p) (player_height p) areas 0"

text \<open>\<open>isInside\<close> for the rectangle of a player.\<close>

definition inside :: "player \<Rightarrow> house \<Rightarrow> bool" where
  "inside p hs = isInside (player_x p) (player_y p) (player_width p) (player_height p) hs"

record house_interaction =
  houseAreas :: "house list"
  currentHouse :: "nat option"
  buttonShown :: bool

definition checkProximityToHouses :: "player option \<Rightarrow> house_interaction \<Rightarrow> house_interaction" where
  "checkProximityToHouses pl hi =
     (case pl of
        None \<Rightarrow> hi
      | Some p \<Rightarrow>
          if houseAreas hi = [] then hi
          else (let nearest = nearestHouse p (houseAreas hi)
                in if nearest \<noteq> None \<and> nearest \<noteq> currentHouse hi
                   then hi\<lparr>currentHouse := nearest, buttonShown := True\<rparr>
                   else if nearest = None \<and> currentHouse hi \<noteq> None
                   then hi\<lparr>currentHouse := None, buttonShown := False\<rparr>
                   else hi))"


section \<open>Concrete configurations used to exercise the theorems\<close>

text \<open>A map of one tile of 1037 by 1613 pixels whose only obstacle is a flat rectangle.\<close>

definition barWall :: wall where
  "barWall = \<lparr> wall_x = 50, wall_y = 50, wall_width = 100, wall_height = 10,
                wall_rotation = 0, wall_shape = Rectangle, wall_polygon = None,
                wall_radius = None, wall_points = None \<rparr>"

definition barMap :: map_manager where
  "barMap = \<lparr> collisionLayer = [barWall], spatialGrid = Map.empty,
               mm_width = 1, mm_height = 1, tileWidth = 1037, tileHeight = 1613 \<rparr>"

text \<open>
  A polygon object of three vertices as the map editor writes it: the vertices are offsets
  from the position, and width and height are zero.
\<close>

definition triObject :: raw_object where
  "triObject = \<lparr> obj_x = 0, obj_y = 0, obj_width = 0, obj_height = 0,
                  obj_rotation = None,
                  obj_polygon = Some [Point 0 0, Point 250 0, Point 0 250],
                  obj_radius = None, obj_points = None \<rparr>"

text \<open>
  The same object with an explicit \<open>points\<close> array (absolute coordinates) naming the same
  three vertices, and the loaded map whose only obstacle it is.
\<close>

definition triPointsObject :: raw_object where
  "triPointsObject = \<lparr> obj_x = 0, obj_y = 0, obj_width = 0, obj_height = 0,
                        obj_rotation = None,
                        obj_polygon = Some [Point 0 0, Point 250 0, Point 0 250],
                        obj_radius = None,
                        obj_points = Some [Point 0 0, Point 250 0, Point 0 250] \<rparr>"

definition triPointsMap :: map_manager where
  "triPointsMap = updateSpatialGrid
     \<lparr> collisionLayer = [toWall triPointsObject], spatialGrid = Map.empty,
       mm_width = 1, mm_height = 1, tileWidth = 1037, tileHeight = 1613 \<rparr>"

text \<open>Two rectangular zones that overlap, and a body standing in the overlap.\<close>

definition zoneA :: house where
  "zoneA = houseData \<lparr> zone_x = 0, zone_y = 0, zone_width = 100, zone_height = 100,
                       zone_polygon = None, zone_ellipse = False \<rparr>"

definition zoneB :: house where
  "zoneB = houseData \<lparr> zone_x = 50, zone_y = 50, zone_width = 100, zone_height = 100,
                       zone_polygon = None, zone_ellipse = False \<rparr>"

definition bodyInOverlap :: player where
  "bodyInOverlap = \<lparr> player_x = 60, player_y = 60, player_width = 10, player_height = 10 \<rparr>"

text \<open>A polygonal zone: an upright strip 20 wide that reaches from 50 above to 50 below
  a body of 100 by 100 standing at the origin.\<close>

definition stripZone :: house where
  "stripZone = houseData \<lparr> zone_x = 0, zone_y = 0, zone_width = 0, zone_height = 0,
       zone_polygon = Some [Point 40 (- 50), Point 60 (- 50), Point 60 150, Point 40 150],
       zone_ellipse = False \<rparr>"

text \<open>The same strip as an obstacle.\<close>

definition stripWall :: wall where
  "stripWall = \<lparr> wall_x = 0, wall_y = 0, wall_width = 0, wall_height = 0, wall_rotation = 0,
       wall_shape = Polygon,
       wall_polygon = Some [Point 40 (- 50), Point 60 (- 50), Point 60 150, Point 40 150],
       wall_radius = None, wall_points = None \<rparr>"

text \<open>The strip as the only obstacle of a map; a zone far from the body in the overlap;
  a loaded map with the bar and the three-vertex polygon object.\<close>

definition stripMap :: map_manager where
  "stripMap = \<lparr> collisionLayer = [stripWall], spatialGrid = Map.empty,
                 mm_width = 1, mm_height = 1, tileWidth = 1037, tileHeight = 1613 \<rparr>"

definition zoneFar :: house where
  "zoneFar = houseData \<lparr> zone_x = 500, zone_y = 500, zone_width = 10, zone_height = 10,
                         zone_polygon = None, zone_ellipse = False \<rparr>"

definition twoMap :: map_manager where
  "twoMap = updateSpatialGrid
     \<lparr> collisionLayer = [barWall, toWall triObject], spatialGrid = Map.empty,
       mm_width = 1, mm_height = 1, tileWidth = 1037, tileHeight = 1613 \<rparr>"

section \<open>Bounding boxes as the specification words them\<close>

text \<open>The bounding box of a list of points.\<close>

definition boundsOf :: "point list \<Rightarrow> real \<times> real \<times> real \<times> real" where
  "boundsOf ps = (Min (set (map px ps)), Min (set (map py ps)),
                  Max (set (map px ps)), Max (set (map py ps)))"

text \<open>The bounding box of all vertices of a polygon in world coordinates.\<close>

definition vertexBounds :: "wall \<Rightarrow> real \<times> real \<times> real \<times> real" where
  "vertexBounds w = boundsOf (worldPoints (wall_x w) (wall_y w) (the (wall_polygon w)))"

text \<open>The bounding box from position and size, ignoring rotation.\<close>

definition sizeBounds :: "wall \<Rightarrow> real \<times> real \<times> real \<times> real" where
  "sizeBounds w = (wall_x w, wall_y w, wall_x w + wall_width w, wall_y w + wall_height w)"

text \<open>
  The box the specification names: the box of the vertices for the polygon and triangle
  kinds (the vertices of a triangle being the points its predicate uses), the box from
  position and size for the others.
\<close>

definition statedBounds :: "wall \<Rightarrow> real \<times> real \<times> real \<times> real" where
  "statedBounds w =
     (if wall_shape w = Polygon then vertexBounds w
      else if wall_shape w = Triangle then boundsOf (trianglePoints w)
      else sizeBounds w)"

text \<open>The box with the triangle kind moved to the position-and-size side.\<close>

definition polygonOnlyBounds :: "wall \<Rightarrow> real \<times> real \<times> real \<times> real" where
  "polygonOnlyBounds w = (if wall_shape w = Polygon then vertexBounds w else sizeBounds w)"

text \<open>A box overlaps the query rectangle; boxes that only touch count as overlapping.\<close>

definition boxOverlaps ::
  "real \<times> real \<times> real \<times> real \<Rightarrow> real \<Rightarrow> real \<Rightarrow> real \<Rightarrow> real \<Rightarrow> bool" where
  "boxOverlaps b x y width height =
     (case b of (minX, minY, maxX, maxY) \<Rightarrow>
        minX \<le> x + width \<and> x \<le> maxX \<and> minY \<le> y + height \<and> y \<le> maxY)"

section \<open>Geometry in real numbers, for stating the properties\<close>

text \<open>Twice the signed area of the triangle \<open>a b c\<close>; it is the \<open>denom\<close> of \<open>pointInTriangle\<close>.\<close>

definition area2 :: "point \<Rightarrow> point \<Rightarrow> point \<Rightarrow> real" where
  "area2 a b c = (py b - py c) * (px a - px c) + (px c - px b) * (py a - py c)"

text \<open>A point of JavaScript numbers that are both finite, its real coordinates, and the
  embedding of a real point.\<close>

definition jfin :: "jpoint \<Rightarrow> bool" where
  "jfin p = (isFinite (jx p) \<and> isFinite (jy p))"

definition pval :: "jpoint \<Rightarrow> point" where
  "pval p = Point (val (jx p)) (val (jy p))"

definition toJs :: "point \<Rightarrow> jpoint" where
  "toJs p = JPoint (Fin (px p)) (Fin (py p))"

text \<open>
  The corners of a rectangle rotated about its position \<open>(x, y)\<close> by \<open>rotation\<close> degrees:
  the corner at offset \<open>(cx, cy)\<close> goes to \<open>(x + cx cos - cy sin, y + cx sin + cy cos)\<close>.
\<close>

definition rotatedCorners :: "real \<Rightarrow> real \<Rightarrow> real \<Rightarrow> real \<Rightarrow> real \<Rightarrow> point list" where
  "rotatedCorners x y width height rotation =
     (let rad = rotation * pi / 180
      in [Point x y,
          Point (x + width * cos rad) (y + width * sin rad),
          Point (x + width * cos rad - height * sin rad) (y + width * sin rad + height * cos rad),
          Point (x - height * sin rad) (y + height * cos rad)])"

text \<open>The unit normal of the edge from \<open>p1\<close> to \<open>p2\<close>, and the normals of all edges.\<close>

definition edgeNormal :: "point \<Rightarrow> point \<Rightarrow> point" where
  "edgeNormal p1 p2 =
     (let ax = py p2 - py p1; ay = px p1 - px p2; len = sqrt (ax * ax + ay * ay)
      in Point (ax / len) (ay / len))"

definition edgeNormals :: "point list \<Rightarrow> point list" where
  "edgeNormals shp = map (\<lambda>(p1, p2). edgeNormal p1 p2) (edges shp)"

definition rdot :: "point \<Rightarrow> point \<Rightarrow> real" where
  "rdot p axis = px p * px axis + py p * py axis"

text \<open>The interval \<open>(min, max)\<close> that the corners of a shape project to on an axis.\<close>

definition projection :: "point list \<Rightarrow> point \<Rightarrow> real \<times> real" where
  "projection shp axis =
     (let dots = map (\<lambda>p. px p * px axis + py p * py axis) shp
      in (Min (set dots), Max (set dots)))"

text \<open>An axis is separating when \<open>max1 < min2\<close> or \<open>max2 < min1\<close>.\<close>

definition separating :: "point \<Rightarrow> point list \<Rightarrow> point list \<Rightarrow> bool" where
  "separating axis shape1 shape2 =
     (case (projection shape1 axis, projection shape2 axis) of
        ((min1, max1), (min2, max2)) \<Rightarrow> max1 < min2 \<or> max2 < min1)"

definition noSeparatingAxis :: "point list \<Rightarrow> point list \<Rightarrow> bool" where
  "noSeparatingAxis shape1 shape2 =
     (\<forall>axis \<in> set (edgeNormals shape1 @ edgeNormals shape2). \<not> separating axis shape1 shape2)"

text \<open>
  The same criterion evaluated as JavaScript evaluates it, on the projections that
  \<open>projectShape\<close> computes: \<open>max1 < min2 || max2 < min1\<close>, over the edges of both shapes.
\<close>

definition separatingAxis :: "jsnum \<times> jsnum \<Rightarrow> jsnum \<times> jsnum \<Rightarrow> bool" where
  "separatingAxis proj1 proj2 = (jlt (snd proj1) (fst proj2) \<or> jlt (snd proj2) (fst proj1))"

definition satAsStated :: "jpoint list \<Rightarrow> jpoint list \<Rightarrow> bool" where
  "satAsStated shape1 shape2 =
     (\<forall>(p1, p2) \<in> set (edges shape1 @ edges shape2).
        \<not> separatingAxis (projectShape shape1 (satAxis p1 p2))
             (projectShape shape2 (satAxis p1 p2)))"


text \<open>
  A rectangle object of 300 by 10 at (200, 200) turned by 90 degrees about its position:
  it covers the region from (190, 200) to (200, 500).
\<close>

definition rotObject :: raw_object where
  "rotObject = \<lparr> obj_x = 200, obj_y = 200, obj_width = 300, obj_height = 10,
                  obj_rotation = Some 90, obj_polygon = None, obj_radius = None,
                  obj_points = None \<rparr>"

definition rotMap :: map_manager where
  "rotMap = updateSpatialGrid
     \<lparr> collisionLayer = [toWall rotObject], spatialGrid = Map.empty,
       mm_width = 1, mm_height = 1, tileWidth = 1037, tileHeight = 1613 \<rparr>"

section \<open>Blocked rectangles, for stating the movement property\<close>

text \<open>The rectangle collides, in the narrow phase, with an obstacle that the grid lookup
  at that rectangle yields.\<close>

definition collidesWithCandidate :: "map_manager \<Rightarrow> real \<Rightarrow> real \<Rightarrow> real \<Rightarrow> real \<Rightarrow> bool" where
  "collidesWithCandidate mm x y width height =
     (\<exists>i \<in> set (candidates (spatialGrid mm) x y width height).
        checkShapeCollision x y width height (collisionLayer mm ! i) = Inr True)"

text \<open>The rectangle collides, in the narrow phase, with any obstacle of the map.\<close>

definition collidesWithObstacle :: "map_manager \<Rightarrow> real \<Rightarrow> real \<Rightarrow> real \<Rightarrow> real \<Rightarrow> bool" where
  "collidesWithObstacle mm x y width height =
     (\<exists>w \<in> set (collisionLayer mm). checkShapeCollision x y width height w = Inr True)"

definition blocked :: "map_manager \<Rightarrow> real \<Rightarrow> real \<Rightarrow> real \<Rightarrow> real \<Rightarrow> bool" where
  "blocked mm x y width height =
     (outOfBounds mm x y width height \<or> collidesWithCandidate mm x y width height)"

text \<open>A body to the left of the turned bar of \<open>rotMap\<close>, and one to the left of the bar
  of \<open>barMap\<close>.\<close>

definition bodyLeftOfRot :: player where
  "bodyLeftOfRot = \<lparr> player_x = 170, player_y = 400, player_width = 10, player_height = 10 \<rparr>"

definition bodyLeftOfBar :: player where
  "bodyLeftOfBar = \<lparr> player_x = 30, player_y = 50, player_width = 10, player_height = 10 \<rparr>"

section \<open>Properties of the spatial grid\<close>

lemma cellObjects_pushIndex:
  "cellObjects (pushIndex i key g) k =
     (if k = key then cellObjects g key @ [i] else cellObjects g k)"
  by (simp add: pushIndex_def cellObjects_def)

lemma cellObjects_fold_pushIndex:
  "cellObjects (fold (pushIndex i) ks g) k = cellObjects g k @ replicate (count_list ks k) i"
proof (induction ks arbitrary: g)
  case Nil
  then show ?case by simp
next
  case (Cons key ks)
  show ?case
    by (simp add: Cons.IH cellObjects_pushIndex replicate_app_Cons_same)
qed

lemma distinct_cellRange: "distinct (cellRange minX minY maxX maxY)"
  by (simp add: cellRange_def distinct_product)

lemma set_cellRange:
  "(gx, gy) \<in> set (cellRange minX minY maxX maxY) \<longleftrightarrow>
     \<lfloor>minX / gridSize\<rfloor> \<le> gx \<and> gx \<le> \<lfloor>maxX / gridSize\<rfloor> \<and>
     \<lfloor>minY / gridSize\<rfloor> \<le> gy \<and> gy \<le> \<lfloor>maxY / gridSize\<rfloor>"
  by (auto simp: cellRange_def)

lemma distinct_wallCells: "distinct (wallCells w)"
  by (simp add: wallCells_def distinct_cellRange split: prod.splits)

lemma count_list_distinct:
  "distinct ks \<Longrightarrow> count_list ks k = (if k \<in> set ks then 1 else 0)"
  by (induction ks) auto

lemma cellObjects_addWall:
  "cellObjects (addWall layer i g) k =
     cellObjects g k @ (if k \<in> set (wallCells (layer ! i)) then [i] else [])"
  by (simp add: addWall_def cellObjects_fold_pushIndex count_list_distinct distinct_wallCells)

lemma cellObjects_fold_addWall:
  "cellObjects (fold (addWall layer) is g) k =
     cellObjects g k @ filter (\<lambda>i. k \<in> set (wallCells (layer ! i))) is"
  by (induction "is" arbitrary: g) (simp_all add: cellObjects_addWall)

text \<open>
  After a rebuild, a cell holds exactly the indices of the obstacles whose cell range
  contains it, in increasing order.
\<close>

lemma cellObjects_buildGrid:
  "cellObjects (buildGrid layer) k =
     filter (\<lambda>i. k \<in> set (wallCells (layer ! i))) [0 ..< length layer]"
proof -
  have "cellObjects Map.empty k = []"
    by (simp add: cellObjects_def)
  then show ?thesis
    by (simp add: buildGrid_def cellObjects_fold_addWall)
qed

lemma in_candidates:
  "i \<in> set (candidates g x y width height) \<longleftrightarrow>
     (\<exists>k \<in> set (cellRange x y (x + width) (y + height)). i \<in> set (cellObjects g k))"
  unfolding candidates_def by auto

lemma in_candidates_buildGrid:
  "i \<in> set (candidates (buildGrid layer) x y width height) \<longleftrightarrow>
     i < length layer \<and>
     (\<exists>k \<in> set (cellRange x y (x + width) (y + height)). k \<in> set (wallCells (layer ! i)))"
  unfolding in_candidates cellObjects_buildGrid by auto

lemma candidates_in_range:
  "i \<in> set (candidates (buildGrid layer) x y width height) \<Longrightarrow> i < length layer"
  by (simp add: in_candidates_buildGrid)

text \<open>Two intervals that meet share a grid coordinate.\<close>

lemma cells_meet:
  fixes a1 b1 a2 b2 :: real
  assumes "a1 \<le> b1" "a2 \<le> b2" "a1 \<le> b2" "a2 \<le> b1"
  shows "\<exists>c. \<lfloor>a1 / gridSize\<rfloor> \<le> c \<and> c \<le> \<lfloor>b1 / gridSize\<rfloor> \<and>
             \<lfloor>a2 / gridSize\<rfloor> \<le> c \<and> c \<le> \<lfloor>b2 / gridSize\<rfloor>"
proof -
  have mono: "\<lfloor>u / gridSize\<rfloor> \<le> \<lfloor>v / gridSize\<rfloor>" if "u \<le> v" for u v :: real
    using that by (intro floor_mono divide_right_mono) (simp_all add: gridSize_def)
  let ?c = "max \<lfloor>a1 / gridSize\<rfloor> \<lfloor>a2 / gridSize\<rfloor>"
  have "\<lfloor>a1 / gridSize\<rfloor> \<le> ?c" "\<lfloor>a2 / gridSize\<rfloor> \<le> ?c"
    by simp_all
  moreover have "?c \<le> \<lfloor>b1 / gridSize\<rfloor>"
    using mono[OF assms(1)] mono[OF assms(4)] by simp
  moreover have "?c \<le> \<lfloor>b2 / gridSize\<rfloor>"
    using mono[OF assms(2)] mono[OF assms(3)] by simp
  ultimately show ?thesis by blast
qed

lemma cellRanges_meet:
  assumes "minX \<le> maxX" "minY \<le> maxY" "0 \<le> width" "0 \<le> height"
    and "minX \<le> x + width" "x \<le> maxX" "minY \<le> y + height" "y \<le> maxY"
  shows "\<exists>k \<in> set (cellRange x y (x + width) (y + height)).
           k \<in> set (cellRange minX minY maxX maxY)"
proof -
  obtain cx where cx: "\<lfloor>minX / gridSize\<rfloor> \<le> cx" "cx \<le> \<lfloor>maxX / gridSize\<rfloor>"
      "\<lfloor>x / gridSize\<rfloor> \<le> cx" "cx \<le> \<lfloor>(x + width) / gridSize\<rfloor>"
    using cells_meet[of minX maxX x "x + width"] assms by auto
  obtain cy where cy: "\<lfloor>minY / gridSize\<rfloor> \<le> cy" "cy \<le> \<lfloor>maxY / gridSize\<rfloor>"
      "\<lfloor>y / gridSize\<rfloor> \<le> cy" "cy \<le> \<lfloor>(y + height) / gridSize\<rfloor>"
    using cells_meet[of minY maxY y "y + height"] assms by auto
  have "(cx, cy) \<in> set (cellRange x y (x + width) (y + height))"
    using cx cy by (simp add: set_cellRange)
  moreover have "(cx, cy) \<in> set (cellRange minX minY maxX maxY)"
    using cx cy by (simp add: set_cellRange)
  ultimately show ?thesis by blast
qed


lemma count_list_concat:
  "count_list (concat xss) i = sum_list (map (\<lambda>xs. count_list xs i) xss)"
  by (induction xss) simp_all

lemma count_list_filter_upt:
  "count_list (filter P [0 ..< n]) i = (if i < n \<and> P i then 1 else 0)"
proof -
  have "distinct (filter P [0 ..< n])"
    by simp
  then show ?thesis
    by (simp add: count_list_distinct)
qed

lemma sum_list_indicator:
  "distinct ks \<Longrightarrow> sum_list (map (\<lambda>k. if k \<in> A then 1 else 0) ks) = card (set ks \<inter> A)"
proof (induction ks)
  case Nil
  then show ?case by simp
next
  case (Cons k ks)
  then show ?case
    by (cases "k \<in> A") (simp_all add: card_insert_if)
qed

lemma count_candidates_buildGrid:
  assumes "i < length layer"
  shows "count_list (candidates (buildGrid layer) x y width height) i =
         card (set (cellRange x y (x + width) (y + height)) \<inter> set (wallCells (layer ! i)))"
proof -
  have "count_list (candidates (buildGrid layer) x y width height) i =
        sum_list (map (\<lambda>k. if k \<in> set (wallCells (layer ! i)) then 1 else 0)
                      (cellRange x y (x + width) (y + height)))"
    using assms
    by (simp add: candidates_def count_list_concat cellObjects_buildGrid count_list_filter_upt
          comp_def)
  then show ?thesis
    by (simp add: sum_list_indicator distinct_cellRange)
qed

lemma Min_le_Max_map:
  fixes f :: "'a \<Rightarrow> real"
  assumes "ps \<noteq> []"
  shows "Min (set (map f ps)) \<le> Max (set (map f ps))"
proof -
  have "finite (set (map f ps))" "set (map f ps) \<noteq> {}"
    using assms by simp_all
  then show ?thesis
    by (meson Max_in Min_le)
qed

lemma wallBounds_polygonOnly:
  assumes "wall_shape w = Polygon \<longrightarrow> (\<exists>ps. wall_polygon w = Some ps \<and> ps \<noteq> [])"
  shows "wallBounds w = polygonOnlyBounds w"
  using assms
  by (auto simp: wallBounds_def polygonOnlyBounds_def vertexBounds_def boundsOf_def
      sizeBounds_def Let_def split: option.splits)

lemma polygonOnlyBounds_ordered:
  assumes "wall_shape w = Polygon \<longrightarrow> (\<exists>ps. wall_polygon w = Some ps \<and> ps \<noteq> [])"
    and "wall_shape w \<noteq> Polygon \<longrightarrow> 0 \<le> wall_width w \<and> 0 \<le> wall_height w"
    and "polygonOnlyBounds w = (minX, minY, maxX, maxY)"
  shows "minX \<le> maxX \<and> minY \<le> maxY"
proof (cases "wall_shape w = Polygon")
  case True
  then obtain ps where ps: "wall_polygon w = Some ps" "ps \<noteq> []"
    using assms(1) by blast
  then have "worldPoints (wall_x w) (wall_y w) ps \<noteq> []"
    by (simp add: worldPoints_def)
  then show ?thesis
    using assms(3) True ps Min_le_Max_map[of "worldPoints (wall_x w) (wall_y w) ps"]
    by (auto simp: polygonOnlyBounds_def vertexBounds_def boundsOf_def Let_def)
next
  case False
  then show ?thesis
    using assms(2,3) by (auto simp: polygonOnlyBounds_def sizeBounds_def)
qed

text \<open>Unfolding the grid on a concrete map.\<close>

lemmas grid_eval = updateSpatialGrid_def buildGrid_def addWall_def wallCells_def wallBounds_def
  cellRange_def gridSize_def pushIndex_def cellObjects_def candidates_def upto_rec1

lemma toWall_triObject:
  "toWall triObject =
     \<lparr> wall_x = 0, wall_y = 0, wall_width = 0, wall_height = 0, wall_rotation = 0,
       wall_shape = Triangle, wall_polygon = Some [Point 0 0, Point 250 0, Point 0 250],
       wall_radius = None, wall_points = None \<rparr>"
  by (simp add: toWall_def triObject_def detectShapeType_def hasPolygon_def)

text \<open>A scan that answers "no collision" has tested every candidate and found none colliding.\<close>

lemma testCandidates_False:
  "testCandidates layer x y width height cs = Inr False \<Longrightarrow>
     \<forall>i \<in> set cs. i < length layer \<and> checkShapeCollision x y width height (layer ! i) = Inr False"
proof (induction cs)
  case Nil
  then show ?case by simp
next
  case (Cons i cs)
  then show ?case
    by (auto split: if_splits sum.splits)
qed

section \<open>C1: the broad phase has no false negatives\<close>

lemma toWall_triPointsObject:
  "toWall triPointsObject =
     \<lparr> wall_x = 0, wall_y = 0, wall_width = 0, wall_height = 0, wall_rotation = 0,
       wall_shape = Triangle, wall_polygon = Some [Point 0 0, Point 250 0, Point 0 250],
       wall_radius = None, wall_points = Some [Point 0 0, Point 250 0, Point 0 250] \<rparr>"
  by (simp add: toWall_def triPointsObject_def detectShapeType_def hasPolygon_def)

text \<open>Unfolding the arithmetic of JavaScript numbers on concrete values.\<close>

lemmas js_eval = jadd_def jsub_def jmul_def jdiv_def jge_def jle_def zeroOf_def infOf_def

lemma corner_in_triangle:
  "pointInTriangle (Point 150 10) (Point 0 0) (Point 250 0) (Point 0 250)"
  by (simp add: pointInTriangle_def triDenom_def js_eval)

lemma triPoints_hit: "checkShapeCollision 150 10 20 20 (toWall triPointsObject) = Inr True"
  by (simp add: checkShapeCollision_def checkTriangleCollision_def trianglePoints_def
      toWall_triPointsObject playerCorners_def corner_in_triangle)

lemma triPointsMap_eq:
  "collisionLayer triPointsMap = [toWall triPointsObject]" "mm_width triPointsMap = 1"
  "mm_height triPointsMap = 1" "tileWidth triPointsMap = 1037" "tileHeight triPointsMap = 1613"
  by (simp_all add: triPointsMap_def updateSpatialGrid_def)

text \<open>
  C1 as worded fails for the triangle kind. \<open>updateSpatialGrid\<close> takes the box of the
  vertices only when \<open>wall.shape === 'polygon'\<close>; a triangle is registered by position and
  size like a rectangle. The obstacle of \<open>triPointsMap\<close> is classified as a triangle; its
  vertices, whether read from its \<open>points\<close> or from its polygon array, span the box from
  (0, 0) to (250, 250), and it is registered in the cell (0, 0) alone. The query rectangle
  at (150, 10) of size 20 by 20 lies inside that box and its lookup returns no index: the
  triangle is not tested, although its predicate would report a collision.
\<close>

theorem triangle_missed_by_grid:
  "wall_shape (collisionLayer triPointsMap ! 0) = Triangle \<and>
   trianglePoints (collisionLayer triPointsMap ! 0) = [Point 0 0, Point 250 0, Point 0 250] \<and>
   worldPoints (wall_x (collisionLayer triPointsMap ! 0)) (wall_y (collisionLayer triPointsMap ! 0))
     (the (wall_polygon (collisionLayer triPointsMap ! 0))) =
       [Point 0 0, Point 250 0, Point 0 250] \<and>
   statedBounds (collisionLayer triPointsMap ! 0) = (0, 0, 250, 250) \<and>
   boxOverlaps (0, 0, 250, 250) 150 10 20 20 \<and>
   0 \<notin> set (candidates (spatialGrid triPointsMap) 150 10 20 20) \<and>
   checkShapeCollision 150 10 20 20 (collisionLayer triPointsMap ! 0) = Inr True \<and>
   checkCollision triPointsMap 150 10 20 20 = Inr False"
proof -
  have w: "collisionLayer triPointsMap ! 0 = toWall triPointsObject"
    by (simp add: triPointsMap_eq)
  have c: "candidates (spatialGrid triPointsMap) 150 10 20 20 = []"
    by (simp add: triPointsMap_def toWall_triPointsObject grid_eval)
  have cc: "checkCollision triPointsMap 150 10 20 20 = Inr False"
    by (simp add: checkCollision_def outOfBounds_def triPointsMap_eq(2-5) c)
  have tp: "trianglePoints (toWall triPointsObject) = [Point 0 0, Point 250 0, Point 0 250]"
    by (simp add: toWall_triPointsObject trianglePoints_def)
  have wp: "worldPoints (wall_x (toWall triPointsObject)) (wall_y (toWall triPointsObject))
     (the (wall_polygon (toWall triPointsObject))) = [Point 0 0, Point 250 0, Point 0 250]"
    by (simp add: toWall_triPointsObject worldPoints_def)
  have sh: "wall_shape (toWall triPointsObject) = Triangle"
    by (simp add: toWall_triPointsObject)
  have sb: "statedBounds (toWall triPointsObject) = (0, 0, 250, 250)"
    by (simp add: statedBounds_def sh tp boundsOf_def)
  show ?thesis
    unfolding w using sh tp wp sb c cc triPoints_hit by (simp add: boxOverlaps_def)
qed

text \<open>
  C1, amended: after \<open>updateSpatialGrid\<close>, for every obstacle whose bounding box (for the
  polygon kind the box of all vertices in world coordinates; for the rectangle, circle and
  triangle kinds the box from position and a non-negative size, ignoring rotation) overlaps
  or touches a query rectangle of non-negative size, the lookup of \<open>checkCollision\<close> over the
  cell range of the query rectangle yields that obstacle's index, so that the obstacle is
  narrow-phase tested before \<open>checkCollision\<close> answers that nothing collides.
\<close>

theorem broad_phase_complete:
  assumes "mm' = updateSpatialGrid mm"
    and "objIndex < length (collisionLayer mm)" and "w = collisionLayer mm ! objIndex"
    and "0 \<le> width" and "0 \<le> height"
    and "wall_shape w = Polygon \<longrightarrow> (\<exists>ps. wall_polygon w = Some ps \<and> ps \<noteq> [])"
    and "wall_shape w \<noteq> Polygon \<longrightarrow> 0 \<le> wall_width w \<and> 0 \<le> wall_height w"
    and "boxOverlaps (polygonOnlyBounds w) x y width height"
  shows "objIndex \<in> set (candidates (spatialGrid mm') x y width height) \<and>
         (checkCollision mm' x y width height = Inr False \<longrightarrow>
            checkShapeCollision x y width height w = Inr False)"
proof -
  obtain minX minY maxX maxY where b: "polygonOnlyBounds w = (minX, minY, maxX, maxY)"
    by (metis prod_cases4)
  have ord: "minX \<le> maxX" "minY \<le> maxY"
    using polygonOnlyBounds_ordered[OF assms(6,7) b] by simp_all
  have ov: "minX \<le> x + width" "x \<le> maxX" "minY \<le> y + height" "y \<le> maxY"
    using assms(8) b by (simp_all add: boxOverlaps_def)
  have cells: "wallCells w = cellRange minX minY maxX maxY"
    using wallBounds_polygonOnly[OF assms(6)] b by (simp add: wallCells_def)
  have "\<exists>k \<in> set (cellRange x y (x + width) (y + height)). k \<in> set (wallCells w)"
    unfolding cells using cellRanges_meet[OF ord assms(4,5) ov] .
  then have cand: "objIndex \<in> set (candidates (spatialGrid mm') x y width height)"
    using assms(1,2,3) by (simp add: updateSpatialGrid_def in_candidates_buildGrid)
  have "checkShapeCollision x y width height w = Inr False"
    if "checkCollision mm' x y width height = Inr False"
  proof -
    from that have "testCandidates (collisionLayer mm') x y width height
        (candidates (spatialGrid mm') x y width height) = Inr False"
      by (simp add: checkCollision_def split: if_splits)
    from testCandidates_False[OF this] cand assms(1,3) show ?thesis
      by (simp add: updateSpatialGrid_def)
  qed
  with cand show ?thesis by blast
qed

text \<open>
  The bar at (50, 50): a query rectangle that crosses it, and one that touches its left
  edge, for which \<open>checkCollision\<close> answers that nothing collides; the polygonal strip and
  a query rectangle inside the box of its vertices.
\<close>

theorem broad_phase_complete_witness:
  "boxOverlaps (polygonOnlyBounds (collisionLayer barMap ! 0)) 60 50 80 5 \<and>
   0 \<in> set (candidates (spatialGrid (updateSpatialGrid barMap)) 60 50 80 5) \<and>
   boxOverlaps (polygonOnlyBounds (collisionLayer barMap ! 0)) 40 50 10 10 \<and>
   checkCollision (updateSpatialGrid barMap) 40 50 10 10 = Inr False \<and>
   checkShapeCollision 40 50 10 10 (collisionLayer barMap ! 0) = Inr False \<and>
   wall_shape (collisionLayer stripMap ! 0) = Polygon \<and>
   boxOverlaps (polygonOnlyBounds (collisionLayer stripMap ! 0)) 50 100 10 10 \<and>
   0 \<in> set (candidates (spatialGrid (updateSpatialGrid stripMap)) 50 100 10 10)"
proof -
  have w: "collisionLayer barMap ! 0 = barWall"
    by (simp add: barMap_def)
  have ov: "boxOverlaps (polygonOnlyBounds (collisionLayer barMap ! 0)) 60 50 80 5"
    by (simp add: w barWall_def boxOverlaps_def polygonOnlyBounds_def sizeBounds_def)
  have c1: "0 \<in> set (candidates (spatialGrid (updateSpatialGrid barMap)) 60 50 80 5)"
    by (rule broad_phase_complete[OF refl _ refl _ _ _ _ ov, THEN conjunct1])
       (simp_all add: barMap_def barWall_def)
  have ov3: "boxOverlaps (polygonOnlyBounds (collisionLayer barMap ! 0)) 40 50 10 10"
    by (simp add: w barWall_def boxOverlaps_def polygonOnlyBounds_def sizeBounds_def)
  have cc: "checkCollision (updateSpatialGrid barMap) 40 50 10 10 = Inr False"
    by (simp add: checkCollision_def outOfBounds_def barMap_def barWall_def grid_eval
          checkShapeCollision_def checkRotatedRectangleCollision_def rectCollision_def)
  have c3: "checkShapeCollision 40 50 10 10 (collisionLayer barMap ! 0) = Inr False"
    by (rule broad_phase_complete[OF refl _ refl _ _ _ _ ov3, THEN conjunct2, THEN mp, OF _ _ _ _ _ cc])
       (simp_all add: barMap_def barWall_def)
  have s: "collisionLayer stripMap ! 0 = stripWall"
    by (simp add: stripMap_def)
  have sh: "wall_shape (collisionLayer stripMap ! 0) = Polygon"
    by (simp add: s stripWall_def)
  have ov2: "boxOverlaps (polygonOnlyBounds (collisionLayer stripMap ! 0)) 50 100 10 10"
    by (simp add: s stripWall_def boxOverlaps_def polygonOnlyBounds_def vertexBounds_def
          boundsOf_def worldPoints_def)
  have c2: "0 \<in> set (candidates (spatialGrid (updateSpatialGrid stripMap)) 50 100 10 10)"
    by (rule broad_phase_complete[OF refl _ refl _ _ _ _ ov2, THEN conjunct1])
       (simp_all add: stripMap_def stripWall_def)
  from ov c1 ov3 cc c3 sh ov2 c2 show ?thesis by simp
qed

section \<open>C7: the candidate lookup is not deduplicated\<close>

text \<open>
  C7 as worded fails: \<open>checkCollision\<close> walks the arrays of all cells of the query range one
  after the other and keeps no record of the indices it has seen. The bar spans the cells
  (0, 0) and (1, 0); a query rectangle over both cells meets its index twice.
\<close>

theorem candidates_not_deduplicated:
  "candidates (spatialGrid (updateSpatialGrid barMap)) 60 50 80 5 = [0, 0]"
  by (simp add: barMap_def barWall_def grid_eval)

text \<open>
  C7, amended: after \<open>updateSpatialGrid\<close>, every single cell holds an obstacle index at
  most once, and the sequence of indices that a query looks up contains the index of an
  obstacle once for every cell of the query range in which the obstacle is registered
  (so more than once when its bounding box spans several of these cells).
\<close>

theorem candidates_multiplicity:
  assumes "mm' = updateSpatialGrid mm" and "objIndex < length (collisionLayer mm)"
  shows "distinct (cellObjects (spatialGrid mm') key) \<and>
         count_list (candidates (spatialGrid mm') x y width height) objIndex =
           card (set (cellRange x y (x + width) (y + height)) \<inter>
                 set (wallCells (collisionLayer mm ! objIndex)))"
  using assms
  by (simp add: updateSpatialGrid_def cellObjects_buildGrid count_candidates_buildGrid)

theorem candidates_multiplicity_witness:
  "distinct (cellObjects (spatialGrid (updateSpatialGrid barMap)) (0, 0)) \<and>
   count_list (candidates (spatialGrid (updateSpatialGrid barMap)) 60 50 80 5) 0 = 2"
proof -
  have len: "(0::nat) < length (collisionLayer barMap)"
    by (simp add: barMap_def)
  have "count_list (candidates (spatialGrid (updateSpatialGrid barMap)) 60 50 80 5) 0 = 2"
    by (simp add: barMap_def barWall_def grid_eval)
  with candidates_multiplicity[OF refl len, of "(0, 0)" 60 50 80 5]
  show ?thesis by simp
qed

section \<open>C10: the grid holds valid obstacle indices\<close>



section \<open>C6: rectangles that are not rotated\<close>

text \<open>
  C6: for a rectangle obstacle with rotation 0 the predicate is \<open>rectCollision\<close>, the test
  \<open>x1 < x2 + w2 && x1 + w1 > x2 && y1 < y2 + h2 && y1 + h1 > y2\<close> with strict
  inequalities, so that two rectangles of which one ends where the other begins (on either
  axis, in either order) are reported as not colliding.
\<close>

theorem rect_collision_strict:
  "rectCollision x1 y1 w1 h1 x2 y2 w2 h2 =
     (x1 < x2 + w2 \<and> x1 + w1 > x2 \<and> y1 < y2 + h2 \<and> y1 + h1 > y2) \<and>
   (x1 + w1 = x2 \<or> x1 = x2 + w2 \<or> y1 + h1 = y2 \<or> y1 = y2 + h2
      \<longrightarrow> \<not> rectCollision x1 y1 w1 h1 x2 y2 w2 h2) \<and>
   (wall_rotation w = 0 \<longrightarrow>
      checkRotatedRectangleCollision x1 y1 w1 h1 w =
        rectCollision x1 y1 w1 h1 (wall_x w) (wall_y w) (wall_width w) (wall_height w)) \<and>
   (wall_rotation w = 0 \<and> wall_shape w = Rectangle \<longrightarrow>
      checkShapeCollision x1 y1 w1 h1 w =
        Inr (rectCollision x1 y1 w1 h1 (wall_x w) (wall_y w) (wall_width w) (wall_height w)))"
  by (auto simp: rectCollision_def checkRotatedRectangleCollision_def checkShapeCollision_def)

text \<open>A body whose right edge is at 50 touches the bar, which begins at 50: no collision.\<close>

theorem rect_collision_strict_witness:
  "(40::real) + 10 = 50 \<and> wall_rotation barWall = 0 \<and> wall_shape barWall = Rectangle \<and>
   \<not> rectCollision 40 50 10 10 50 50 100 10 \<and>
   checkShapeCollision 40 50 10 10 barWall = Inr False \<and>
   checkShapeCollision 41 50 10 10 barWall = Inr True"
proof -
  have a: "wall_rotation barWall = 0 \<and> wall_shape barWall = Rectangle"
    by (simp add: barWall_def)
  have b: "wall_x barWall = 50 \<and> wall_y barWall = 50 \<and> wall_width barWall = 100 \<and>
           wall_height barWall = 10"
    by (simp add: barWall_def)
  from rect_collision_strict[of 40 50 10 10 50 50 100 10 barWall]
       rect_collision_strict[of 41 50 10 10 50 50 100 10 barWall] a b
  show ?thesis by simp
qed

section \<open>C4: shape classification\<close>

text \<open>
  C4: \<open>detectShapeType\<close> is a total function of the raw object. A polygon array of length
  at least 4 gives polygon, of length exactly 3 gives triangle; otherwise (no polygon
  array, or one shorter than 3) a truthy radius, or a width equal to the height and
  positive, gives circle; everything else gives rectangle, whatever the rotation is.
\<close>

theorem detectShapeType_total:
  "detectShapeType obj =
     (case obj_polygon obj of
        Some ps \<Rightarrow>
          if length ps \<ge> 4 then Polygon
          else if length ps = 3 then Triangle
          else if truthy (obj_radius obj) \<or> (obj_width obj = obj_height obj \<and> obj_width obj > 0)
          then Circle else Rectangle
      | None \<Rightarrow>
          if truthy (obj_radius obj) \<or> (obj_width obj = obj_height obj \<and> obj_width obj > 0)
          then Circle else Rectangle) \<and>
   detectShapeType (obj\<lparr>obj_rotation := r\<rparr>) = detectShapeType obj"
  by (auto simp: detectShapeType_def hasPolygon_def split: option.splits)

theorem detectShapeType_total_witness:
  "detectShapeType triObject = Triangle \<and>
   detectShapeType (triObject\<lparr>obj_rotation := Some 45\<rparr>) = Triangle \<and>
   detectShapeType (triObject\<lparr>obj_polygon := None\<rparr>) = Rectangle"
proof -
  have "obj_polygon triObject = Some [Point 0 0, Point 250 0, Point 0 250]"
    by (simp add: triObject_def)
  moreover have "obj_polygon (triObject\<lparr>obj_polygon := None\<rparr>) = None"
    by simp
  moreover have "\<not> truthy (obj_radius (triObject\<lparr>obj_polygon := None\<rparr>)) \<and>
    \<not> obj_width (triObject\<lparr>obj_polygon := None\<rparr>) > 0"
    by (simp add: triObject_def)
  ultimately show ?thesis
    using detectShapeType_total[of triObject "Some 45"]
          detectShapeType_total[of "triObject\<lparr>obj_polygon := None\<rparr>" None]
    by simp
qed


section \<open>C8: zone membership is first match in declaration order\<close>

lemma scanHouses_shift:
  "scanHouses x y w h hs (Suc n) = map_option Suc (scanHouses x y w h hs n)"
  by (induction hs arbitrary: n) simp_all

lemma scanHouses_Some:
  "scanHouses x y w h hs 0 = Some k \<longleftrightarrow>
     k < length hs \<and> isInside x y w h (hs ! k) \<and> (\<forall>j < k. \<not> isInside x y w h (hs ! j))"
proof (induction hs arbitrary: k)
  case Nil
  then show ?case by simp
next
  case (Cons a hs)
  show ?case
  proof (cases "isInside x y w h a")
    case True
    then show ?thesis by (cases k) auto
  next
    case False
    show ?thesis
    proof (cases k)
      case 0
      with False show ?thesis by (simp add: scanHouses_shift)
    next
      case (Suc k')
      have "(\<forall>j < Suc k'. \<not> isInside x y w h ((a # hs) ! j)) \<longleftrightarrow>
            (\<forall>j < k'. \<not> isInside x y w h (hs ! j))"
        using False by (auto simp: less_Suc_eq_0_disj)
      with False Suc show ?thesis
        by (simp add: scanHouses_shift Cons.IH)
    qed
  qed
qed

lemma scanHouses_None:
  "scanHouses x y w h hs n = None \<longleftrightarrow> (\<forall>j < length hs. \<not> isInside x y w h (hs ! j))"
  by (induction hs arbitrary: n) (auto simp: less_Suc_eq_0_disj)

text \<open>
  C8: the scan of \<open>checkProximityToHouses\<close> visits the zones in the order of \<open>houseAreas\<close>
  and reports the first zone whose membership predicate holds: the reported position is
  the least one whose zone contains the body, no zone is reported exactly when none
  contains it, and when the body is inside two zones the later-declared one is never the
  one reported. The reported zone becomes \<open>currentHouse\<close>.
\<close>

theorem zone_first_match:
  "(nearestHouse p areas = Some k \<longleftrightarrow>
      k < length areas \<and> inside p (areas ! k) \<and> (\<forall>j < k. \<not> inside p (areas ! j))) \<and>
   (nearestHouse p areas = None \<longleftrightarrow> (\<forall>j < length areas. \<not> inside p (areas ! j))) \<and>
   (a < b \<and> b < length areas \<and> inside p (areas ! a) \<and> inside p (areas ! b) \<longrightarrow>
      (\<exists>k \<le> a. nearestHouse p areas = Some k) \<and> nearestHouse p areas \<noteq> Some b) \<and>
   (houseAreas hi \<noteq> [] \<longrightarrow>
      currentHouse (checkProximityToHouses (Some p) hi) = nearestHouse p (houseAreas hi))"
proof (intro conjI)
  show first: "nearestHouse p areas = Some k \<longleftrightarrow>
      k < length areas \<and> inside p (areas ! k) \<and> (\<forall>j < k. \<not> inside p (areas ! j))" for k
    by (simp add: nearestHouse_def inside_def scanHouses_Some)
  show none: "nearestHouse p areas = None \<longleftrightarrow> (\<forall>j < length areas. \<not> inside p (areas ! j))"
    by (simp add: nearestHouse_def inside_def scanHouses_None)
  show "a < b \<and> b < length areas \<and> inside p (areas ! a) \<and> inside p (areas ! b) \<longrightarrow>
      (\<exists>k \<le> a. nearestHouse p areas = Some k) \<and> nearestHouse p areas \<noteq> Some b"
  proof
    assume h: "a < b \<and> b < length areas \<and> inside p (areas ! a) \<and> inside p (areas ! b)"
    then have "nearestHouse p areas \<noteq> None" using none by auto
    then obtain k where k: "nearestHouse p areas = Some k" by auto
    then have "\<forall>j < k. \<not> inside p (areas ! j)" using first by blast
    then have "k \<le> a" using h by (meson not_le)
    then show "(\<exists>k \<le> a. nearestHouse p areas = Some k) \<and> nearestHouse p areas \<noteq> Some b"
      using k h by auto
  qed
  show "houseAreas hi \<noteq> [] \<longrightarrow>
      currentHouse (checkProximityToHouses (Some p) hi) = nearestHouse p (houseAreas hi)"
    by (auto simp: checkProximityToHouses_def Let_def)
qed

lemma zoneA_eq: "zoneA = \<lparr> house_x = 0, house_y = 0, house_width = 100, house_height = 100, house_centerX = 50, house_centerY = 50, house_radius = 50, house_shape = HouseRectangle, house_polygon = None\<rparr>"
  by (simp add: zoneA_def houseData_def)
lemma zoneB_eq: "zoneB = \<lparr> house_x = 50, house_y = 50, house_width = 100, house_height = 100, house_centerX = 100, house_centerY = 100, house_radius = 50, house_shape = HouseRectangle, house_polygon = None\<rparr>"
  by (simp add: zoneB_def houseData_def)

lemma zoneFar_eq: "zoneFar = \<lparr> house_x = 500, house_y = 500, house_width = 10, house_height = 10,
    house_centerX = 505, house_centerY = 505, house_radius = 5, house_shape = HouseRectangle,
    house_polygon = None \<rparr>"
  by (simp add: zoneFar_def houseData_def)

theorem zone_first_match_witness:
  "inside bodyInOverlap zoneA \<and> inside bodyInOverlap zoneB \<and> \<not> inside bodyInOverlap zoneFar \<and>
   nearestHouse bodyInOverlap [zoneFar, zoneA, zoneB] = Some 1 \<and>
   nearestHouse bodyInOverlap [zoneFar, zoneB, zoneA] = Some 1 \<and>
   nearestHouse bodyInOverlap [zoneFar] = None \<and>
   currentHouse (checkProximityToHouses (Some bodyInOverlap)
     \<lparr> houseAreas = [zoneFar, zoneA, zoneB], currentHouse = None, buttonShown = False \<rparr>) = Some 1"
proof -
  have a: "inside bodyInOverlap zoneA"
    by (simp add: inside_def bodyInOverlap_def zoneA_eq isInside_def checkHouseRectangleCollision_def)
  have b: "inside bodyInOverlap zoneB"
    by (simp add: inside_def bodyInOverlap_def zoneB_eq isInside_def checkHouseRectangleCollision_def)
  have f: "\<not> inside bodyInOverlap zoneFar"
    by (simp add: inside_def bodyInOverlap_def zoneFar_eq isInside_def checkHouseRectangleCollision_def)
  have n1: "nearestHouse bodyInOverlap [zoneFar, zoneA, zoneB] = Some 1"
    using zone_first_match[of bodyInOverlap "[zoneFar, zoneA, zoneB]" 1 1 2] a b f by simp
  have n2: "nearestHouse bodyInOverlap [zoneFar, zoneB, zoneA] = Some 1"
    using zone_first_match[of bodyInOverlap "[zoneFar, zoneB, zoneA]" 1 1 2] a b f by simp
  have n3: "nearestHouse bodyInOverlap [zoneFar] = None"
    using zone_first_match[of bodyInOverlap "[zoneFar]" 0 0 0] f by simp
  have "currentHouse (checkProximityToHouses (Some bodyInOverlap)
     \<lparr> houseAreas = [zoneFar, zoneA, zoneB], currentHouse = None, buttonShown = False \<rparr>) = Some 1"
    using zone_first_match[of bodyInOverlap "[zoneFar, zoneA, zoneB]" 1 1 2
            "\<lparr> houseAreas = [zoneFar, zoneA, zoneB], currentHouse = None, buttonShown = False \<rparr>"] n1
    by simp
  with a b f n1 n2 n3 show ?thesis by simp
qed


section \<open>C9: polygon zones have no edge-intersection test\<close>

lemma houseData_polygon:
  assumes "house_shape (houseData obj) = HousePolygon"
  shows "\<exists>ps. house_polygon (houseData obj) = Some ps \<and> length ps \<ge> 3"
  using assms by (auto simp: houseData_def Let_def split: option.splits if_splits)

text \<open>
  C9: for a polygon-shaped zone (as \<open>loadHouseAreas\<close> builds it) the zone test is true if
  and only if some corner of the body rectangle is inside the zone polygon (even-odd ray
  casting) or some polygon vertex lies within the inclusive bounds of the body rectangle.
  The obstacle test \<open>checkPolygonCollision\<close> on the same polygon is that same test or an
  intersection of a body edge with a polygon edge; the zone test has no such third part.
\<close>

theorem polygon_zone_no_edge_test:
  assumes "hs = houseData obj" and "house_shape hs = HousePolygon"
    and "wp = worldPoints (house_x hs) (house_y hs) (the (house_polygon hs))"
  shows "isInside x y width height hs =
           ((\<exists>corner \<in> set (playerCorners x y width height). pointInPolygon corner wp) \<or>
            (\<exists>v \<in> set wp. pointInRect x y width height v)) \<and>
         (wall_polygon w = house_polygon hs \<and> wall_x w = house_x hs \<and> wall_y w = house_y hs \<longrightarrow>
            checkPolygonCollision x y width height w =
              (isInside x y width height hs \<or>
               rectanglePolygonIntersection x y width height wp))"
proof -
  obtain ps where ps: "house_polygon hs = Some ps" "length ps \<ge> 3"
    using houseData_polygon assms(1,2) by blast
  have zone: "isInside x y width height hs =
           ((\<exists>corner \<in> set (playerCorners x y width height). pointInPolygon corner wp) \<or>
            (\<exists>v \<in> set wp. pointInRect x y width height v))"
    using assms(2,3) ps
    by (simp add: isInside_def checkHousePolygonCollision_def list_ex_iff Let_def)
  have "checkPolygonCollision x y width height w =
          (isInside x y width height hs \<or> rectanglePolygonIntersection x y width height wp)"
    if "wall_polygon w = house_polygon hs \<and> wall_x w = house_x hs \<and> wall_y w = house_y hs"
    using that assms(3) ps unfolding zone
    by (simp add: checkPolygonCollision_def list_ex_iff Let_def disj_assoc)
  with zone show ?thesis by blast
qed

text \<open>
  A body of 100 by 100 across the upright strip: no corner of it is in the strip, no vertex
  of the strip is in it, and it is reported outside the zone, while the obstacle test on
  the same polygon reports a collision.
\<close>

lemma stripZone_eq:
  "stripZone = \<lparr> house_x = 0, house_y = 0, house_width = 0, house_height = 0,
     house_centerX = 0, house_centerY = 0, house_radius = 0, house_shape = HousePolygon,
     house_polygon = Some [Point 40 (- 50), Point 60 (- 50), Point 60 150, Point 40 150] \<rparr>"
  by (simp add: stripZone_def houseData_def)

lemma strip_world:
  "worldPoints 0 0 [Point 40 (- 50), Point 60 (- 50), Point 60 150, Point 40 150] =
     [Point 40 (- 50), Point 60 (- 50), Point 60 150, Point 40 150]"
  by (simp add: worldPoints_def)

lemma strip_no_corner:
  "\<not> (\<exists>corner \<in> set (playerCorners 0 0 100 100).
        pointInPolygon corner [Point 40 (- 50), Point 60 (- 50), Point 60 150, Point 40 150])"
  by (simp add: playerCorners_def pointInPolygon_def withPrevious_def crosses_def)

lemma strip_no_vertex:
  "\<not> (\<exists>v \<in> set [Point 40 (- 50), Point 60 (- 50), Point 60 150, Point 40 150].
        pointInRect 0 0 100 100 v)"
  by (simp add: pointInRect_def)

lemma strip_edges_cross:
  "rectanglePolygonIntersection 0 0 100 100
     [Point 40 (- 50), Point 60 (- 50), Point 60 150, Point 40 150]"
  by (simp add: rectanglePolygonIntersection_def edges_def lineIntersection_def Let_def)

theorem polygon_zone_no_edge_test_witness:
  "house_shape stripZone = HousePolygon \<and>
   \<not> isInside 0 0 100 100 stripZone \<and>
   checkPolygonCollision 0 0 100 100 stripWall"
proof -
  have shp: "house_shape stripZone = HousePolygon"
    by (simp add: stripZone_eq)
  have wp: "[Point 40 (- 50), Point 60 (- 50), Point 60 150, Point 40 150] =
            worldPoints (house_x stripZone) (house_y stripZone) (the (house_polygon stripZone))"
    by (simp add: stripZone_eq strip_world)
  have same: "wall_polygon stripWall = house_polygon stripZone \<and>
              wall_x stripWall = house_x stripZone \<and> wall_y stripWall = house_y stripZone"
    by (simp add: stripZone_eq stripWall_def)
  from polygon_zone_no_edge_test[OF stripZone_def shp wp, of 0 0 100 100 stripWall]
       strip_no_corner strip_no_vertex strip_edges_cross same shp
  show ?thesis by simp
qed



section \<open>Properties of the arithmetic of JavaScript numbers\<close>

lemma isFinite_cases: "isFinite a \<longleftrightarrow> (\<exists>r. a = Fin r) \<or> a = NegZero"
  by (cases a) simp_all

lemma jneg_finite: "isFinite a \<Longrightarrow> isFinite (jneg a) \<and> val (jneg a) = - val a"
  by (cases a) simp_all

lemma jadd_finite:
  "isFinite a \<Longrightarrow> isFinite b \<Longrightarrow> isFinite (jadd a b) \<and> val (jadd a b) = val a + val b"
  by (cases a; cases b) (simp_all add: jadd_def)

lemma jsub_finite:
  "isFinite a \<Longrightarrow> isFinite b \<Longrightarrow> isFinite (jsub a b) \<and> val (jsub a b) = val a - val b"
  using jadd_finite[of a "jneg b"] jneg_finite[of b] by (simp add: jsub_def)

lemma jmul_finite:
  "isFinite a \<Longrightarrow> isFinite b \<Longrightarrow> isFinite (jmul a b) \<and> val (jmul a b) = val a * val b"
  by (cases a; cases b) (simp_all add: jmul_def zeroOf_def)

lemma jdiv_finite:
  "isFinite a \<Longrightarrow> isFinite b \<Longrightarrow> val b \<noteq> 0 \<Longrightarrow>
     isFinite (jdiv a b) \<and> val (jdiv a b) = val a / val b"
  by (cases a; cases b) (simp_all add: jdiv_def zeroOf_def)

lemma jsqrt_finite:
  "isFinite a \<Longrightarrow> 0 \<le> val a \<Longrightarrow> isFinite (jsqrt a) \<and> val (jsqrt a) = sqrt (val a)"
  by (cases a) simp_all

lemma jlt_finite: "isFinite a \<Longrightarrow> isFinite b \<Longrightarrow> jlt a b = (val a < val b)"
  by (cases a; cases b) simp_all

lemma jge_finite: "isFinite a \<Longrightarrow> isFinite b \<Longrightarrow> jge a b = (val b \<le> val a)"
  by (cases a; cases b) (auto simp: jge_def)

lemma jmin_finite:
  "isFinite a \<Longrightarrow> isFinite b \<Longrightarrow> isFinite (jmin a b) \<and> val (jmin a b) = min (val a) (val b)"
  by (cases a; cases b) (auto simp: jmin_def)

lemma jmax_finite:
  "isFinite a \<Longrightarrow> isFinite b \<Longrightarrow> isFinite (jmax a b) \<and> val (jmax a b) = max (val a) (val b)"
  by (cases a; cases b) (auto simp: jmax_def)

lemma jmin_PosInf: "isFinite d \<Longrightarrow> jmin PosInf d = d"
  by (cases d) (simp_all add: jmin_def)

lemma jmax_NegInf: "isFinite d \<Longrightarrow> jmax NegInf d = d"
  by (cases d) (simp_all add: jmax_def)

lemma jadd_Fin_left: "isFinite b \<Longrightarrow> jadd (Fin a) b = Fin (a + val b)"
  by (cases b) (simp_all add: jadd_def)

lemma jsub_Fin_left: "isFinite b \<Longrightarrow> jsub (Fin a) b = Fin (a - val b)"
  by (cases b) (simp_all add: jsub_def jadd_def)

lemma NaN_absorbs [simp]:
  "jadd NaN b = NaN" "jadd a NaN = NaN" "jmul NaN b = NaN" "jmul a NaN = NaN"
  "jmin NaN b = NaN" "jmin a NaN = NaN" "jmax NaN b = NaN" "jmax a NaN = NaN"
  "jdiv NaN b = NaN" "jdiv a NaN = NaN"
  "\<not> jge NaN b" "\<not> jge a NaN"
  by (simp_all add: jadd_def jmul_def jmin_def jmax_def jdiv_def jge_def)



lemma Fin_finite [simp]: "isFinite (Fin r)" "val (Fin r) = r" by simp_all

lemma triDenom_finite: "isFinite (triDenom a b c) \<and> val (triDenom a b c) = area2 a b c"
  unfolding triDenom_def area2_def
  by (intro conjI) (simp_all add: jadd_finite jmul_finite jsub_finite)

lemma jdiv_by_zero:
  "isFinite n \<Longrightarrow> isFinite d \<Longrightarrow> val d = 0 \<Longrightarrow> jdiv n d = NaN \<or> jdiv n d = PosInf \<or> jdiv n d = NegInf"
  by (cases n; cases d) (simp_all add: jdiv_def infOf_def)

lemma barycentric_undefined:
  assumes "alpha = NaN \<or> alpha = PosInf \<or> alpha = NegInf"
    and "beta = NaN \<or> beta = PosInf \<or> beta = NegInf"
  shows "\<not> (jge alpha (Fin 0) \<and> jge beta (Fin 0) \<and> jge (jsub (jsub (Fin 1) alpha) beta) (Fin 0))"
  using assms by (auto simp: jge_def jsub_def jadd_def)

lemma pointInTriangle_degenerate:
  assumes "area2 a b c = 0"
  shows "\<not> pointInTriangle p a b c"
proof -
  have d: "isFinite (triDenom a b c)" "val (triDenom a b c) = 0"
    using triDenom_finite[of a b c] assms by simp_all
  have n1: "isFinite (jadd (jmul (jsub (Fin (py b)) (Fin (py c))) (jsub (Fin (px p)) (Fin (px c))))
                             (jmul (jsub (Fin (px c)) (Fin (px b))) (jsub (Fin (py p)) (Fin (py c)))))"
    by (simp add: jadd_finite jmul_finite jsub_finite)
  have n2: "isFinite (jadd (jmul (jsub (Fin (py c)) (Fin (py a))) (jsub (Fin (px p)) (Fin (px c))))
                            (jmul (jsub (Fin (px a)) (Fin (px c))) (jsub (Fin (py p)) (Fin (py c)))))"
    by (simp add: jadd_finite jmul_finite jsub_finite)
  show ?thesis
    unfolding pointInTriangle_def Let_def
    by (rule barycentric_undefined[OF jdiv_by_zero[OF n1 d] jdiv_by_zero[OF n2 d]])
qed


section \<open>Properties of the separating-axis test\<close>








lemma getRotatedCorners_toJs:
  "getRotatedCorners x y width height rotation =
     map toJs (rotatedCorners x y width height rotation)"
  by (simp add: getRotatedCorners_def rotatedCorners_def toJs_def Let_def
        jadd_Fin_left jsub_Fin_left jmul_finite jadd_finite)

lemma jfin_toJs [simp]: "jfin (toJs p)" "pval (toJs p) = p"
  by (simp_all add: jfin_def pval_def toJs_def)

lemma satAxis_finite:
  assumes "jfin p1" "jfin p2" "pval p1 \<noteq> pval p2"
  shows "jfin (satAxis p1 p2) \<and> pval (satAxis p1 p2) = edgeNormal (pval p1) (pval p2)"
proof -
  let ?ax = "jsub (jy p2) (jy p1)" and ?ay = "jsub (jx p1) (jx p2)"
  have ax: "isFinite ?ax" "val ?ax = py (pval p2) - py (pval p1)"
    and ay: "isFinite ?ay" "val ?ay = px (pval p1) - px (pval p2)"
    using assms by (simp_all add: jfin_def pval_def jsub_finite)
  let ?sq = "jadd (jmul ?ax ?ax) (jmul ?ay ?ay)"
  have sq: "isFinite ?sq" "val ?sq = val ?ax * val ?ax + val ?ay * val ?ay"
    using ax(1) ay(1) by (simp_all add: jadd_finite jmul_finite)
  have nz: "val ?ax \<noteq> 0 \<or> val ?ay \<noteq> 0"
    using assms(3) ax(2) ay(2) by (cases "pval p1"; cases "pval p2") auto
  have pos: "0 < val ?sq"
    unfolding sq(2) using nz by (metis sum_squares_gt_zero_iff)
  let ?len = "jsqrt ?sq"
  have len: "isFinite ?len" "val ?len = sqrt (val ?sq)" "val ?len \<noteq> 0"
    using jsqrt_finite[of ?sq] sq(1) pos by simp_all
  have "isFinite (jdiv ?ax ?len)" "val (jdiv ?ax ?len) = val ?ax / val ?len"
       "isFinite (jdiv ?ay ?len)" "val (jdiv ?ay ?len) = val ?ay / val ?len"
    using jdiv_finite[OF ax(1) len(1,3)] jdiv_finite[OF ay(1) len(1,3)] by simp_all
  then show ?thesis
    unfolding satAxis_def Let_def jfin_def pval_def edgeNormal_def
    by (simp add: len(2) sq(2) ax(2) ay(2) pval_def)
qed

lemma dot_finite:
  "jfin p \<Longrightarrow> jfin axis \<Longrightarrow>
     isFinite (dot p axis) \<and> val (dot p axis) = rdot (pval p) (pval axis)"
  by (simp add: dot_def rdot_def jfin_def pval_def jadd_finite jmul_finite)

lemma projectShape_fold_finite:
  assumes "\<forall>p \<in> set shp. jfin p" "jfin axis" "isFinite mn" "isFinite mx"
  shows "isFinite (fst (fold (\<lambda>p (mn, mx). (jmin mn (dot p axis), jmax mx (dot p axis))) shp (mn, mx))) \<and>
         isFinite (snd (fold (\<lambda>p (mn, mx). (jmin mn (dot p axis), jmax mx (dot p axis))) shp (mn, mx))) \<and>
         val (fst (fold (\<lambda>p (mn, mx). (jmin mn (dot p axis), jmax mx (dot p axis))) shp (mn, mx))) =
           fold min (map (\<lambda>p. rdot (pval p) (pval axis)) shp) (val mn) \<and>
         val (snd (fold (\<lambda>p (mn, mx). (jmin mn (dot p axis), jmax mx (dot p axis))) shp (mn, mx))) =
           fold max (map (\<lambda>p. rdot (pval p) (pval axis)) shp) (val mx)"
  using assms
proof (induction shp arbitrary: mn mx)
  case Nil
  then show ?case by simp
next
  case (Cons p shp)
  have d: "isFinite (dot p axis)" "val (dot p axis) = rdot (pval p) (pval axis)"
    using dot_finite[of p axis] Cons.prems by simp_all
  have m: "isFinite (jmin mn (dot p axis))" "val (jmin mn (dot p axis)) = min (val mn) (rdot (pval p) (pval axis))"
          "isFinite (jmax mx (dot p axis))" "val (jmax mx (dot p axis)) = max (val mx) (rdot (pval p) (pval axis))"
    using jmin_finite[OF Cons.prems(3) d(1)] jmax_finite[OF Cons.prems(4) d(1)] d(2) by simp_all
  have "\<forall>p \<in> set shp. jfin p" using Cons.prems(1) by simp
  from Cons.IH[OF this Cons.prems(2) m(1) m(3)] m(2,4)
  show ?case by (simp add: min.commute max.commute)
qed

lemma projectShape_finite:
  assumes "shp \<noteq> []" "\<forall>p \<in> set shp. jfin p" "jfin axis"
  shows "isFinite (fst (projectShape shp axis)) \<and> isFinite (snd (projectShape shp axis)) \<and>
         val (fst (projectShape shp axis)) = Min (set (map (\<lambda>p. rdot (pval p) (pval axis)) shp)) \<and>
         val (snd (projectShape shp axis)) = Max (set (map (\<lambda>p. rdot (pval p) (pval axis)) shp))"
proof -
  obtain p rest where shp: "shp = p # rest" using assms(1) by (cases shp) auto
  have d: "isFinite (dot p axis)" "val (dot p axis) = rdot (pval p) (pval axis)"
    using dot_finite[of p axis] assms(2,3) shp by simp_all
  have r: "\<forall>p \<in> set rest. jfin p" using assms(2) shp by simp
  have step: "projectShape shp axis =
      fold (\<lambda>p (mn, mx). (jmin mn (dot p axis), jmax mx (dot p axis))) rest (dot p axis, dot p axis)"
    by (simp add: projectShape_def shp jmin_PosInf[OF d(1)] jmax_NegInf[OF d(1)])
  have mn: "Min (set (map (\<lambda>p. rdot (pval p) (pval axis)) shp)) =
            fold min (map (\<lambda>p. rdot (pval p) (pval axis)) rest) (rdot (pval p) (pval axis))"
    unfolding shp list.map by (rule Min.set_eq_fold)
  have mx: "Max (set (map (\<lambda>p. rdot (pval p) (pval axis)) shp)) =
            fold max (map (\<lambda>p. rdot (pval p) (pval axis)) rest) (rdot (pval p) (pval axis))"
    unfolding shp list.map by (rule Max.set_eq_fold)
  show ?thesis
    unfolding step mn mx using projectShape_fold_finite[OF r assms(3) d(1) d(1)] d(2)
    by simp
qed


lemma edges_map: "edges (map f shp) = map (\<lambda>(a, b). (f a, f b)) (edges shp)"
  by (simp add: edges_def rotate1_map zip_map_map)

lemma projection_toJs:
  assumes "shp \<noteq> []" "jfin axis"
  shows "isFinite (fst (projectShape (map toJs shp) axis)) \<and>
         isFinite (snd (projectShape (map toJs shp) axis)) \<and>
         (val (fst (projectShape (map toJs shp) axis)), val (snd (projectShape (map toJs shp) axis))) =
           projection shp (pval axis)"
proof -
  have "map toJs shp \<noteq> []" "\<forall>p \<in> set (map toJs shp). jfin p"
    using assms(1) by auto
  from projectShape_finite[OF this assms(2)]
  show ?thesis
    by (simp add: projection_def rdot_def comp_def Let_def)
qed

lemma overlap_toJs:
  assumes "r1 \<noteq> []" "r2 \<noteq> []" "jfin axis"
  shows "overlap (projectShape (map toJs r1) axis) (projectShape (map toJs r2) axis) =
           (\<not> separating (pval axis) r1 r2)"
    and "separatingAxis (projectShape (map toJs r1) axis) (projectShape (map toJs r2) axis) =
           separating (pval axis) r1 r2"
proof -
  let ?p1 = "projectShape (map toJs r1) axis" and ?p2 = "projectShape (map toJs r2) axis"
  have f1: "isFinite (fst ?p1)" "isFinite (snd ?p1)"
       "projection r1 (pval axis) = (val (fst ?p1), val (snd ?p1))"
    using projection_toJs[OF assms(1,3)] by simp_all
  have f2: "isFinite (fst ?p2)" "isFinite (snd ?p2)"
       "projection r2 (pval axis) = (val (fst ?p2), val (snd ?p2))"
    using projection_toJs[OF assms(2,3)] by simp_all
  show "overlap ?p1 ?p2 = (\<not> separating (pval axis) r1 r2)"
    unfolding overlap_def separating_def f1(3) f2(3)
    using f1(1,2) f2(1,2) by (auto simp: jge_finite)
  show "separatingAxis ?p1 ?p2 = separating (pval axis) r1 r2"
    unfolding separatingAxis_def separating_def f1(3) f2(3)
    using f1(1,2) f2(1,2) by (auto simp: jlt_finite)
qed

lemma separating_sym: "separating axis r1 r2 = separating axis r2 r1"
  by (auto simp: separating_def split: prod.splits)

lemma satPass_toJs:
  assumes "r1 \<noteq> []" "r2 \<noteq> []" "\<forall>(p1, p2) \<in> set (edges r1). p1 \<noteq> p2"
  shows "satPass (map toJs r1) (map toJs r2) =
           (\<forall>axis \<in> set (edgeNormals r1). \<not> separating axis r1 r2)"
proof -
  have "overlap (projectShape (map toJs r1) (satAxis (toJs a) (toJs b)))
                (projectShape (map toJs r2) (satAxis (toJs a) (toJs b))) =
          (\<not> separating (edgeNormal a b) r1 r2)"
    if "(a, b) \<in> set (edges r1)" for a b
  proof -
    have "a \<noteq> b" using assms(3) that by auto
    then have ax: "jfin (satAxis (toJs a) (toJs b))"
      "pval (satAxis (toJs a) (toJs b)) = edgeNormal a b"
      using satAxis_finite[of "toJs a" "toJs b"] by simp_all
    show ?thesis
      using overlap_toJs(1)[OF assms(1,2) ax(1)] ax(2) by simp
  qed
  then show ?thesis
    by (auto simp: satPass_def edges_map list_all_iff edgeNormals_def)
qed

lemma satCollision_toJs:
  assumes "r1 \<noteq> []" "r2 \<noteq> []" "\<forall>(p1, p2) \<in> set (edges r1). p1 \<noteq> p2"
    "\<forall>(p1, p2) \<in> set (edges r2). p1 \<noteq> p2"
  shows "satCollision (map toJs r1) (map toJs r2) = noSeparatingAxis r1 r2"
  unfolding satCollision_def noSeparatingAxis_def
    satPass_toJs[OF assms(1,2,3)] satPass_toJs[OF assms(2,1,4)]
  using separating_sym[of _ r2 r1] by auto

lemma satAsStated_toJs:
  assumes "r1 \<noteq> []" "r2 \<noteq> []" "\<forall>(p1, p2) \<in> set (edges r1). p1 \<noteq> p2"
    "\<forall>(p1, p2) \<in> set (edges r2). p1 \<noteq> p2"
  shows "satAsStated (map toJs r1) (map toJs r2) = noSeparatingAxis r1 r2"
proof -
  have "separatingAxis (projectShape (map toJs r1) (satAxis (toJs a) (toJs b)))
                (projectShape (map toJs r2) (satAxis (toJs a) (toJs b))) =
          separating (edgeNormal a b) r1 r2"
    if "(a, b) \<in> set (edges r1) \<union> set (edges r2)" for a b
  proof -
    have "a \<noteq> b" using assms(3,4) that by auto
    then have ax: "jfin (satAxis (toJs a) (toJs b))"
      "pval (satAxis (toJs a) (toJs b)) = edgeNormal a b"
      using satAxis_finite[of "toJs a" "toJs b"] by simp_all
    show ?thesis
      using overlap_toJs(2)[OF assms(1,2) ax(1)] ax(2) by simp
  qed
  note eq = this
  have L: "satAsStated (map toJs r1) (map toJs r2) =
      (\<forall>(a, b) \<in> set (edges r1) \<union> set (edges r2).
         \<not> separatingAxis (projectShape (map toJs r1) (satAxis (toJs a) (toJs b)))
                (projectShape (map toJs r2) (satAxis (toJs a) (toJs b))))"
    by (auto simp: satAsStated_def edges_map)
  have R: "noSeparatingAxis r1 r2 =
      (\<forall>(a, b) \<in> set (edges r1) \<union> set (edges r2). \<not> separating (edgeNormal a b) r1 r2)"
    by (auto simp: noSeparatingAxis_def edgeNormals_def)
  show ?thesis
    unfolding L R using eq by blast
qed

lemma edges4: "edges [a, b, c, d] = [(a, b), (b, c), (c, d), (d, a)]"
  by (simp add: edges_def)

lemma cos_sin_not_both_zero: "cos (t::real) = 0 \<Longrightarrow> sin t = 0 \<Longrightarrow> False"
  using sin_cos_squared_add[of t] by simp

lemma rotatedCorners_edges_distinct:
  assumes "width \<noteq> 0" "height \<noteq> 0"
  shows "\<forall>(p1, p2) \<in> set (edges (rotatedCorners x y width height rotation)). p1 \<noteq> p2"
  using assms cos_sin_not_both_zero[of "rotation * pi / 180"]
  by (auto simp: rotatedCorners_def Let_def edges4)

lemma rotatedCorners_nonempty: "rotatedCorners x y width height rotation \<noteq> []"
  by (simp add: rotatedCorners_def Let_def)

text \<open>For rectangles of non-zero width and height, \<open>satCollision\<close> is the test in real numbers.\<close>

lemma checkRotated_noSeparatingAxis:
  assumes "wall_rotation w \<noteq> 0"
    and "playerWidth \<noteq> 0" and "playerHeight \<noteq> 0"
    and "wall_width w \<noteq> 0" and "wall_height w \<noteq> 0"
    and "playerCs = rotatedCorners playerX playerY playerWidth playerHeight 0"
    and "wallCs = rotatedCorners (wall_x w) (wall_y w) (wall_width w) (wall_height w)
                   (wall_rotation w)"
  shows "checkRotatedRectangleCollision playerX playerY playerWidth playerHeight w =
           noSeparatingAxis playerCs wallCs"
    and "checkRotatedRectangleCollision playerX playerY playerWidth playerHeight w =
           satAsStated (map toJs playerCs) (map toJs wallCs)"
proof -
  have ne: "playerCs \<noteq> []" "wallCs \<noteq> []"
    unfolding assms(6,7) by (rule rotatedCorners_nonempty)+
  have d1: "\<forall>(p1, p2) \<in> set (edges playerCs). p1 \<noteq> p2"
    unfolding assms(6) by (rule rotatedCorners_edges_distinct[OF assms(2,3)])
  have d2: "\<forall>(p1, p2) \<in> set (edges wallCs). p1 \<noteq> p2"
    unfolding assms(7) by (rule rotatedCorners_edges_distinct[OF assms(4,5)])
  have code: "checkRotatedRectangleCollision playerX playerY playerWidth playerHeight w =
          satCollision (map toJs playerCs) (map toJs wallCs)"
    using assms(1)
    by (simp add: checkRotatedRectangleCollision_def getRotatedCorners_toJs assms(6,7))
  show "checkRotatedRectangleCollision playerX playerY playerWidth playerHeight w =
           noSeparatingAxis playerCs wallCs"
    unfolding code by (rule satCollision_toJs[OF ne d1 d2])
  show "checkRotatedRectangleCollision playerX playerY playerWidth playerHeight w =
           satAsStated (map toJs playerCs) (map toJs wallCs)"
    unfolding code satCollision_toJs[OF ne d1 d2] satAsStated_toJs[OF ne d1 d2] ..
qed

lemma rotatedCorners_0:
  "rotatedCorners x y w h 0 = [Point x y, Point (x + w) y, Point (x + w) (y + h), Point x (y + h)]"
  by (simp add: rotatedCorners_def)

lemma rotatedCorners_90:
  "rotatedCorners x y w h 90 = [Point x y, Point x (y + w), Point (x - h) (y + w), Point (x - h) y]"
  by (simp add: rotatedCorners_def)

lemma edgeNormal_horizontal:
  "a \<noteq> c \<Longrightarrow> edgeNormal (Point a b) (Point c b) = Point 0 (sgn (a - c))"
  by (auto simp: edgeNormal_def sgn_real_def divide_simps)

lemma edgeNormal_vertical:
  "b \<noteq> d \<Longrightarrow> edgeNormal (Point a b) (Point a d) = Point (sgn (d - b)) 0"
  by (auto simp: edgeNormal_def sgn_real_def divide_simps)

lemma rot_normals_body:
  "edgeNormals [Point 185 400, Point 195 400, Point 195 410, Point 185 410] =
     [Point 0 (-1), Point 1 0, Point 0 1, Point (-1) 0]"
  by (simp add: edgeNormals_def edges4 edgeNormal_horizontal edgeNormal_vertical)

lemma rot_normals_wall:
  "edgeNormals [Point 200 200, Point 200 500, Point 190 500, Point 190 200] =
     [Point 1 0, Point 0 1, Point (-1) 0, Point 0 (-1)]"
  by (simp add: edgeNormals_def edges4 edgeNormal_horizontal edgeNormal_vertical)

lemma rot_no_separating_axis: "noSeparatingAxis [Point 185 400, Point 195 400, Point 195 410, Point 185 410]
      [Point 200 200, Point 200 500, Point 190 500, Point 190 200]"
  unfolding noSeparatingAxis_def rot_normals_body rot_normals_wall
  by (simp add: separating_def projection_def)


lemma jlt_NaN [simp]: "\<not> jlt a NaN" "\<not> jlt NaN b"
  by (cases a) simp_all








lemma toWall_rotObject:
  "toWall rotObject =
     \<lparr> wall_x = 200, wall_y = 200, wall_width = 300, wall_height = 10, wall_rotation = 90,
       wall_shape = Rectangle, wall_polygon = None, wall_radius = None, wall_points = None \<rparr>"
  by (simp add: toWall_def rotObject_def detectShapeType_def hasPolygon_def)

lemma rot_collides: "checkRotatedRectangleCollision 185 400 10 10 (toWall rotObject)"
proof -
  have "checkRotatedRectangleCollision 185 400 10 10 (toWall rotObject) =
          noSeparatingAxis (rotatedCorners 185 400 10 10 0) (rotatedCorners 200 200 300 10 90)"
    by (rule checkRotated_noSeparatingAxis(1)) (simp_all add: toWall_rotObject)
  then show ?thesis
    using rot_no_separating_axis by (simp add: rotatedCorners_0 rotatedCorners_90)
qed

section \<open>C5: rotated rectangles and the separating-axis test\<close>






section \<open>C3: degenerate geometry\<close>

lemma checkTriangleCollision_degenerate:
  assumes "3 \<le> length (trianglePoints t)"
    and "area2 (trianglePoints t ! 0) (trianglePoints t ! 1) (trianglePoints t ! 2) = 0"
  shows "checkTriangleCollision x y width height t =
           Inr (\<exists>v \<in> set (trianglePoints t). pointInRect x y width height v)"
  using assms
  by (simp add: checkTriangleCollision_def Let_def pointInTriangle_degenerate list_ex_iff)



lemma tri_points:
  "trianglePoints (toWall triObject) = [Point 0 0, Point 0 0, Point 0 0]"
  by (simp add: toWall_triObject trianglePoints_def)





section \<open>C2: movement is resolved per axis\<close>

lemma checkShapeCollision_total:
  assumes "wall_shape w = Triangle \<longrightarrow> 3 \<le> length (trianglePoints w)"
  shows "\<exists>b. checkShapeCollision x y width height w = Inr b"
  using assms
  by (cases "wall_shape w") (simp_all add: checkShapeCollision_def checkTriangleCollision_def Let_def)

lemma testCandidates_total:
  assumes "\<forall>i \<in> set cs. i < length layer \<and> (\<exists>b. checkShapeCollision x y width height (layer ! i) = Inr b)"
  shows "testCandidates layer x y width height cs =
           Inr (\<exists>i \<in> set cs. checkShapeCollision x y width height (layer ! i) = Inr True)"
  using assms
proof (induction cs)
  case Nil
  then show ?case by simp
next
  case (Cons i cs)
  then obtain b where b: "checkShapeCollision x y width height (layer ! i) = Inr b" and i: "i < length layer"
    by auto
  show ?case
    using Cons b i by (cases b) auto
qed

lemma checkCollision_blocked:
  assumes "spatialGrid mm = buildGrid (collisionLayer mm)"
    and "\<forall>w \<in> set (collisionLayer mm). wall_shape w = Triangle \<longrightarrow> 3 \<le> length (trianglePoints w)"
  shows "checkCollision mm x y width height = Inr (blocked mm x y width height)"
proof -
  have "\<forall>i \<in> set (candidates (spatialGrid mm) x y width height).
          i < length (collisionLayer mm) \<and>
          (\<exists>b. checkShapeCollision x y width height (collisionLayer mm ! i) = Inr b)"
  proof
    fix i assume "i \<in> set (candidates (spatialGrid mm) x y width height)"
    then have i: "i < length (collisionLayer mm)"
      using assms(1) candidates_in_range by simp
    then have "collisionLayer mm ! i \<in> set (collisionLayer mm)" by simp
    with assms(2) i checkShapeCollision_total
    show "i < length (collisionLayer mm) \<and>
          (\<exists>b. checkShapeCollision x y width height (collisionLayer mm ! i) = Inr b)"
      by blast
  qed
  from testCandidates_total[OF this] show ?thesis
    by (simp add: checkCollision_def blocked_def collidesWithCandidate_def)
qed

lemma rotMap_eq:
  "collisionLayer rotMap = [toWall rotObject]" "mm_width rotMap = 1" "mm_height rotMap = 1"
  "tileWidth rotMap = 1037" "tileHeight rotMap = 1613"
  "spatialGrid rotMap = buildGrid [toWall rotObject]"
  by (simp_all add: rotMap_def updateSpatialGrid_def)

lemma rot_cands: "candidates (spatialGrid rotMap) 185 400 10 10 = []"
  by (simp add: rotMap_def toWall_rotObject grid_eval)

text \<open>
  C2 as worded, with "collides with any obstacle", fails: \<open>checkCollision\<close> tests
  only the obstacles that the grid lookup yields, and the grid registers a rotated
  rectangle by its box before rotation. The turned bar of \<open>rotMap\<close> covers the region from
  (190, 200) to (200, 500) and is registered in the cells of the box from (200, 200) to
  (500, 210). The rectangle at (185, 400) of 10 by 10 is within the map and collides
  with the bar in the narrow phase, yet the body moving right by 15 from (170, 400)
  ends at \<open>x = 185\<close>.
\<close>

theorem rotated_wall_entered:
  "\<not> outOfBounds rotMap 185 400 10 10 \<and>
   collidesWithObstacle rotMap 185 400 10 10 \<and>
   move rotMap bodyLeftOfRot 15 0 = (bodyLeftOfRot\<lparr>player_x := 185\<rparr>, None)"
proof (intro conjI)
  show "\<not> outOfBounds rotMap 185 400 10 10"
    by (simp add: outOfBounds_def rotMap_eq)
  have "checkShapeCollision 185 400 10 10 (toWall rotObject) = Inr True"
    using rot_collides by (simp add: checkShapeCollision_def toWall_rotObject)
  then show "collidesWithObstacle rotMap 185 400 10 10"
    by (simp add: collidesWithObstacle_def rotMap_eq)
  have "checkCollision rotMap 185 400 10 10 = Inr False"
    by (simp add: checkCollision_def outOfBounds_def rotMap_eq(2-5) rot_cands)
  then show "move rotMap bodyLeftOfRot 15 0 = (bodyLeftOfRot\<lparr>player_x := 185\<rparr>, None)"
    by (simp add: move_def moveX_def moveY_def bodyLeftOfRot_def)
qed

text \<open>
  C2, amended: on a map whose grid is the one \<open>updateSpatialGrid\<close> builds, and whose
  triangle obstacles have at least three points, \<open>Player.move\<close> raises nothing and
  resolves the movement per axis, all or nothing, X before Y: it first sets
  \<open>x' = x + dx\<close> if \<open>dx\<close> is non-zero and the rectangle \<open>(x + dx, y, w, h)\<close> neither exceeds
  the map bounds (\<open>x < 0 || y < 0 || x + w > mapWidth || y + h > mapHeight\<close>) nor collides,
  in the narrow phase, with an obstacle that the grid lookup at that rectangle yields,
  else \<open>x' = x\<close>; it then sets \<open>y' = y + dy\<close> if \<open>dy\<close> is non-zero and \<open>(x', y + dy, w, h)\<close>
  passes the same tests, else \<open>y' = y\<close>. A rejected axis keeps its coordinate exactly.
\<close>

theorem move_per_axis:
  assumes "spatialGrid mm = buildGrid (collisionLayer mm)"
    and "\<forall>w \<in> set (collisionLayer mm). wall_shape w = Triangle \<longrightarrow> 3 \<le> length (trianglePoints w)"
    and "x' = (if deltaX \<noteq> 0 \<and>
                  \<not> blocked mm (player_x p + deltaX) (player_y p) (player_width p) (player_height p)
               then player_x p + deltaX else player_x p)"
    and "y' = (if deltaY \<noteq> 0 \<and>
                  \<not> blocked mm x' (player_y p + deltaY) (player_width p) (player_height p)
               then player_y p + deltaY else player_y p)"
  shows "move mm p deltaX deltaY = (p\<lparr>player_x := x', player_y := y'\<rparr>, None)"
  unfolding assms(3,4)
  by (simp add: move_def moveX_def moveY_def checkCollision_blocked[OF assms(1,2)] Let_def)

lemma twoMap_eq:
  "collisionLayer twoMap = [barWall, toWall triObject]" "mm_width twoMap = 1"
  "mm_height twoMap = 1" "tileWidth twoMap = 1037" "tileHeight twoMap = 1613"
  "spatialGrid twoMap = buildGrid [barWall, toWall triObject]"
  by (simp_all add: twoMap_def updateSpatialGrid_def)

lemma two_cands:
  "candidates (spatialGrid twoMap) 45 50 10 10 = [0, 1]"
  "candidates (spatialGrid twoMap) 30 55 10 10 = [0, 1]"
  "candidates (spatialGrid twoMap) 35 50 10 10 = [0, 1]"
  by (simp_all add: twoMap_def barWall_def toWall_triObject grid_eval)

lemma tri_miss: "checkShapeCollision x y 10 10 (toWall triObject) = Inr (x \<le> 0 \<and> 0 \<le> x + 10 \<and> y \<le> 0 \<and> 0 \<le> y + 10)"
proof -
  have "checkTriangleCollision x y 10 10 (toWall triObject) =
      Inr (\<exists>v \<in> set (trianglePoints (toWall triObject)). pointInRect x y 10 10 v)"
    by (rule checkTriangleCollision_degenerate) (simp_all add: tri_points area2_def)
  then show ?thesis
    by (simp add: checkShapeCollision_def toWall_triObject tri_points[unfolded toWall_triObject] pointInRect_def)
qed

lemma bar_hit: "checkShapeCollision x y w h barWall = Inr (rectCollision x y w h 50 50 100 10)"
  by (simp add: checkShapeCollision_def checkRotatedRectangleCollision_def barWall_def)

text \<open>
  A body left of the bar, on the map that also holds the three-vertex polygon object:
  moving by (15, 5) is rejected on X by the bar and accepted on Y; moving by (5, 0) is
  accepted; moving by (-35, 0) is rejected by the map boundary.
\<close>

theorem move_per_axis_witness:
  "move twoMap bodyLeftOfBar 15 5 = (bodyLeftOfBar\<lparr>player_x := 30, player_y := 55\<rparr>, None) \<and>
   move twoMap bodyLeftOfBar 5 0 = (bodyLeftOfBar\<lparr>player_x := 35, player_y := 50\<rparr>, None) \<and>
   move twoMap bodyLeftOfBar (- 35) 0 = (bodyLeftOfBar\<lparr>player_x := 30, player_y := 50\<rparr>, None)"
proof -
  have g: "spatialGrid twoMap = buildGrid (collisionLayer twoMap)"
    by (simp add: twoMap_eq)
  have t: "\<forall>w \<in> set (collisionLayer twoMap).
             wall_shape w = Triangle \<longrightarrow> 3 \<le> length (trianglePoints w)"
    by (simp add: twoMap_eq tri_points) (simp add: barWall_def)
  have b1: "blocked twoMap 45 50 10 10"
    by (simp add: blocked_def collidesWithCandidate_def two_cands twoMap_eq(1) bar_hit
          rectCollision_def)
  have b2: "\<not> blocked twoMap 30 55 10 10"
    by (simp add: blocked_def collidesWithCandidate_def outOfBounds_def two_cands twoMap_eq(1-5)
          bar_hit tri_miss rectCollision_def)
  have b3: "\<not> blocked twoMap 35 50 10 10"
    by (simp add: blocked_def collidesWithCandidate_def outOfBounds_def two_cands twoMap_eq(1-5)
          bar_hit tri_miss rectCollision_def)
  have b4: "blocked twoMap (- 5) 50 10 10"
    by (simp add: blocked_def outOfBounds_def)
  have p: "player_x bodyLeftOfBar = 30" "player_y bodyLeftOfBar = 50"
    "player_width bodyLeftOfBar = 10" "player_height bodyLeftOfBar = 10"
    by (simp_all add: bodyLeftOfBar_def)
  from move_per_axis[OF g t refl refl, of bodyLeftOfBar 15 5]
       move_per_axis[OF g t refl refl, of bodyLeftOfBar 5 0]
       move_per_axis[OF g t refl refl, of bodyLeftOfBar "- 35" 0]
       b1 b2 b3 b4
  show ?thesis
    by (simp add: p)
qed


end
